theory Spec2Isabelle
  imports Main "HOL-Library.Word"
begin

section \<open>Data model of the block transaction processor\<close>

text \<open>
  The embedding follows \<^verbatim>\<open>core/state_processor.go\<close> of multi-geth (the file that holds
  \<^verbatim>\<open>StateProcessor.Process\<close>, \<^verbatim>\<open>ApplyTransaction\<close>, \<^verbatim>\<open>applyTransaction\<close>,
  \<^verbatim>\<open>precheckSputnikVMTransaction\<close>, \<^verbatim>\<open>applySputnikTransaction\<close> and
  \<^verbatim>\<open>makeSputnikVMPatch\<close>).

  Go's \<^verbatim>\<open>uint64\<close> is a 64-bit word (addition wraps), \<^verbatim>\<open>*big.Int\<close> is an unbounded
  integer, \<^verbatim>\<open>common.Address\<close> (20 bytes) and \<^verbatim>\<open>common.Hash\<close> (32 bytes) are words of
  160 and 256 bits read big-endian, a byte slice is a list of bytes and a \<^verbatim>\<open>nil\<close> slice is
  the empty list. A pointer that may be \<^verbatim>\<open>nil\<close> is an option.
\<close>

type_synonym uint64 = "64 word"
type_synonym uint = "64 word"
type_synonym address = "160 word"
type_synonym hash = "256 word"
type_synonym bytes = "8 word list"
type_synonym bloom = "2048 word"

text \<open>The errors the processor can return. The four named ones are the package-level
  error values the pre-check returns; an error of the signer and an error of the native
  interpreter carry an opaque code.\<close>

datatype error =
    ErrNonceTooHigh
  | ErrNonceTooLow
  | errInsufficientBalanceForGas
  | ErrGasLimitReached
  | SignerError nat
  | InterpreterError nat

record transaction =
  tx_Nonce :: uint64
  tx_GasPrice :: int
  tx_Gas :: uint64
  tx_To :: "address option"
  tx_Value :: int
  tx_Data :: bytes
  tx_Hash :: hash
  tx_Signature :: nat

record message =
  msg_From :: address
  msg_To :: "address option"
  msg_Nonce :: uint64
  msg_Value :: int
  msg_Gas :: uint64
  msg_GasPrice :: int
  msg_Data :: bytes
  msg_CheckNonce :: bool

record header =
  hdr_Number :: int
  hdr_Time :: int
  hdr_Coinbase :: address
  hdr_Difficulty :: int
  hdr_GasLimit :: uint64

record block =
  blk_Header :: header
  blk_Transactions :: "transaction list"
  blk_Uncles :: "header list"
  blk_Hash :: hash

record log =
  log_Address :: address
  log_Topics :: "hash list"
  log_Data :: bytes
  log_BlockNumber :: uint64

datatype receipt_status = ReceiptStatusFailed | ReceiptStatusSuccessful

record receipt =
  rcpt_PostState :: bytes
  rcpt_Status :: receipt_status
  rcpt_CumulativeGasUsed :: uint64
  rcpt_Bloom :: bloom
  rcpt_Logs :: "log list"
  rcpt_TxHash :: hash
  rcpt_ContractAddress :: address
  rcpt_GasUsed :: uint64
  rcpt_BlockHash :: hash
  rcpt_BlockNumber :: "int option"
  rcpt_TransactionIndex :: uint

text \<open>The rule set and the gas table that \<^verbatim>\<open>config.Rules\<close> and \<^verbatim>\<open>config.GasTable\<close>
  return at a block number (the fields \<^verbatim>\<open>makeSputnikVMPatch\<close> reads).\<close>

record rules =
  IsEIP2F :: bool
  IsEIP7F :: bool
  IsEIP140F :: bool
  IsEIP145F :: bool
  IsEIP150 :: bool
  IsEIP161F :: bool
  IsEIP198F :: bool
  IsEIP211F :: bool
  IsEIP212F :: bool
  IsEIP213F :: bool
  IsEIP214F :: bool
  IsEIP1014F :: bool
  IsEIP1052F :: bool
  IsEIP1283F :: bool

record gas_table =
  gt_ExtcodeCopy :: uint64
  gt_Balance :: uint64
  gt_SLoad :: uint64
  gt_Suicide :: uint64
  gt_CreateBySuicide :: uint64
  gt_Calls :: uint64
  gt_ExpByte :: uint64

text \<open>\<^verbatim>\<open>params.ChainConfig\<close> is declared outside the files at hand. Its methods are taken as
  they are called: each one a function of the block number.\<close>

record chain_config =
  cfg_ChainID :: int
  cfg_DAOForkSupport :: bool
  cfg_DAOForkBlock :: "int option"
  cfg_IsEIP155 :: "int \<Rightarrow> bool"
  cfg_IsEIP161F :: "int \<Rightarrow> bool"
  cfg_IsEIP170F :: "int \<Rightarrow> bool"
  cfg_IsEIP658F :: "int \<Rightarrow> bool"
  cfg_Rules :: "int \<Rightarrow> rules"
  cfg_GasTable :: "int \<Rightarrow> gas_table"

text \<open>The constants of package \<^verbatim>\<open>params\<close> the patch builder reads, taken as parameters.\<close>

record protocol_params =
  MaxCodeSize :: nat
  CallCreateDepth :: nat
  CreateGas :: uint64

record vm_config =
  EVMInterpreter :: string

section \<open>The external VM's interface types\<close>

record DynamicPatchBuilder =
  CodeDepositLimit :: uint
  CallStackLimit :: uint
  GasExtcode :: int
  GasBalance :: int
  GasSload :: int
  GasSuicide :: int
  GasSuicideNewAccount :: int
  GasCall :: int
  GasExpbyte :: int
  GasTransactionCreate :: int
  ForceCodeDeposit :: bool
  HasDelegateCall :: bool
  HasStaticCall :: bool
  HasRevert :: bool
  HasReturnData :: bool
  HasBitwiseShift :: bool
  HasCreate2 :: bool
  HasExtCodeHash :: bool
  HasReducedSstoreGasMetering :: bool
  ErrOnCallWithMoreGas :: bool
  CallCreateL64AfterGas :: bool
  MemoryLimit :: uint
  EnabledContracts :: "address list"

record DynamicAccountPatch =
  InitialNonce :: int
  InitialCreateNonce :: int
  EmptyConsideredExists :: bool
  AllowPartialChange :: bool

text \<open>\<^verbatim>\<open>sputnikvm.NewDynamicPatch\<close> takes the two records; the patch is the pair.\<close>

record DynamicPatch =
  patch_builder :: DynamicPatchBuilder
  patch_account :: DynamicAccountPatch

definition NewDynamicPatch :: "DynamicPatchBuilder \<Rightarrow> DynamicAccountPatch \<Rightarrow> DynamicPatch" where
  "NewDynamicPatch b a = \<lparr>patch_builder = b, patch_account = a\<rparr>"

text \<open>\<^verbatim>\<open>new(big.Int).SetUint64(x)\<close>: the unsigned value of the word.\<close>

definition toBigInt :: "uint64 \<Rightarrow> int" where
  "toBigInt x = uint x"

text \<open>\<^verbatim>\<open>common.BytesToAddress([]byte{b})\<close>: the byte, left-padded to 20 bytes.\<close>

definition BytesToAddress1 :: "8 word \<Rightarrow> address" where
  "BytesToAddress1 b = ucast b"

section \<open>The patch builder\<close>

definition enabledPrecompileds :: "rules \<Rightarrow> address list" where
  "enabledPrecompileds r =
     (let e0 = [BytesToAddress1 1, BytesToAddress1 2, BytesToAddress1 3, BytesToAddress1 4];
          e1 = (if IsEIP198F r then e0 @ [BytesToAddress1 5] else e0);
          e2 = (if IsEIP213F r then (e1 @ [BytesToAddress1 6]) @ [BytesToAddress1 7] else e1);
          e3 = (if IsEIP212F r then e2 @ [BytesToAddress1 8] else e2)
      in e3)"

definition makeSputnikVMPatch :: "protocol_params \<Rightarrow> chain_config \<Rightarrow> header \<Rightarrow> DynamicPatch" where
  "makeSputnikVMPatch P config hdr =
     (let gasTable = cfg_GasTable config (hdr_Number hdr);
          codeDepositLimit = (if cfg_IsEIP170F config (hdr_Number hdr) then MaxCodeSize P else 0);
          rs = cfg_Rules config (hdr_Number hdr);
          createGasCost = (if \<not> IsEIP2F rs then 0 else CreateGas P);
          patchBuilder = \<lparr>
            CodeDepositLimit = of_nat codeDepositLimit,
            CallStackLimit = of_nat (CallCreateDepth P),
            GasExtcode = toBigInt (gt_ExtcodeCopy gasTable),
            GasBalance = toBigInt (gt_Balance gasTable),
            GasSload = toBigInt (gt_SLoad gasTable),
            GasSuicide = toBigInt (gt_Suicide gasTable),
            GasSuicideNewAccount = toBigInt (gt_CreateBySuicide gasTable),
            GasCall = toBigInt (gt_Calls gasTable),
            GasExpbyte = toBigInt (gt_ExpByte gasTable),
            GasTransactionCreate = toBigInt createGasCost,
            ForceCodeDeposit = (\<not> IsEIP2F rs),
            HasDelegateCall = IsEIP7F rs,
            HasStaticCall = IsEIP214F rs,
            HasRevert = IsEIP140F rs,
            HasReturnData = IsEIP211F rs,
            HasBitwiseShift = IsEIP145F rs,
            HasCreate2 = IsEIP1014F rs,
            HasExtCodeHash = IsEIP1052F rs,
            HasReducedSstoreGasMetering = IsEIP1283F rs,
            ErrOnCallWithMoreGas = (\<not> IsEIP150 rs),
            CallCreateL64AfterGas = IsEIP150 rs,
            MemoryLimit = - 1,
            EnabledContracts = enabledPrecompileds rs \<rparr>;
          initialNonce = (0 :: uint64);
          initialCreateNonce = (if IsEIP161F rs then 1 else (0 :: uint64));
          accountPatch = \<lparr>
            InitialNonce = toBigInt initialNonce,
            InitialCreateNonce = toBigInt initialCreateNonce,
            EmptyConsideredExists = (\<not> IsEIP161F rs),
            AllowPartialChange = True \<rparr>
      in NewDynamicPatch patchBuilder accountPatch)"


section \<open>Collaborators\<close>

text \<open>The state database, the external VM, the signer, the native interpreter and the
  consensus engine are used through their interfaces only. Each interface is a record of
  operations over an abstract state: a mutator takes the state last and returns the new
  one, a getter reads it.\<close>

record 's StateDB =
  Exist :: "'s \<Rightarrow> address \<Rightarrow> bool"
  GetNonce :: "'s \<Rightarrow> address \<Rightarrow> uint64"
  GetBalance :: "'s \<Rightarrow> address \<Rightarrow> int"
  GetCode :: "'s \<Rightarrow> address \<Rightarrow> bytes"
  GetState :: "'s \<Rightarrow> address \<Rightarrow> hash \<Rightarrow> hash"
  AddBalance :: "address \<Rightarrow> int \<Rightarrow> 's \<Rightarrow> 's"
  SetBalance :: "address \<Rightarrow> int \<Rightarrow> 's \<Rightarrow> 's"
  SetNonce :: "address \<Rightarrow> uint64 \<Rightarrow> 's \<Rightarrow> 's"
  SetCode :: "address \<Rightarrow> bytes \<Rightarrow> 's \<Rightarrow> 's"
  SetState :: "address \<Rightarrow> hash \<Rightarrow> hash \<Rightarrow> 's \<Rightarrow> 's"
  Suicide :: "address \<Rightarrow> 's \<Rightarrow> 's"
  AddLog :: "log \<Rightarrow> 's \<Rightarrow> 's"
  GetLogs :: "'s \<Rightarrow> hash \<Rightarrow> log list"
  Prepare :: "hash \<Rightarrow> hash \<Rightarrow> int \<Rightarrow> 's \<Rightarrow> 's"
  Finalise :: "bool \<Rightarrow> 's \<Rightarrow> 's"
  IntermediateRoot :: "bool \<Rightarrow> 's \<Rightarrow> hash \<times> 's"
  BlockHash :: "'s \<Rightarrow> hash"
  TxIndex :: "'s \<Rightarrow> int"

datatype require =
    RequireNone
  | RequireAccount address
  | RequireAccountCode address
  | RequireAccountStorage address int
  | RequireBlockhash int

record storage_item =
  item_Key :: int
  item_Value :: int

text \<open>An account change: its type tag with what its accessors return (address, nonce,
  balance, code, storage). The Go switch ends in a \<^verbatim>\<open>default: panic("unreachable")\<close>; the
  binding has these five tags and no other.\<close>

datatype account_change =
    AccountChangeIncreaseBalance address int
  | AccountChangeDecreaseBalance address int
  | AccountChangeRemoved address
  | AccountChangeFull address int int bytes "storage_item list"
  | AccountChangeCreate address int int bytes "storage_item list"

record vm_log =
  vlog_Address :: address
  vlog_Topics :: "hash list"
  vlog_Data :: bytes

record vm_transaction =
  vtx_Caller :: address
  vtx_GasPrice :: int
  vtx_GasLimit :: int
  vtx_Address :: bytes
  vtx_Value :: int
  vtx_Input :: bytes
  vtx_Nonce :: int

record HeaderParams =
  hp_Beneficiary :: address
  hp_Timestamp :: int
  hp_Number :: int
  hp_Difficulty :: int
  hp_GasLimit :: int

record 'vm sputnikvm =
  NewDynamic :: "DynamicPatch \<Rightarrow> vm_transaction \<Rightarrow> HeaderParams \<Rightarrow> 'vm"
  Fire :: "'vm \<Rightarrow> require \<times> 'vm"
  CommitAccount :: "address \<Rightarrow> int \<Rightarrow> int \<Rightarrow> bytes \<Rightarrow> 'vm \<Rightarrow> 'vm"
  CommitAccountCode :: "address \<Rightarrow> bytes \<Rightarrow> 'vm \<Rightarrow> 'vm"
  CommitAccountStorage :: "address \<Rightarrow> int \<Rightarrow> int \<Rightarrow> 'vm \<Rightarrow> 'vm"
  CommitNonexist :: "address \<Rightarrow> 'vm \<Rightarrow> 'vm"
  CommitBlockhash :: "int \<Rightarrow> hash \<Rightarrow> 'vm \<Rightarrow> 'vm"
  AccountChanges :: "'vm \<Rightarrow> account_change list"
  Logs :: "'vm \<Rightarrow> vm_log list"
  UsedGas :: "'vm \<Rightarrow> int"
  Failed :: "'vm \<Rightarrow> bool"

datatype signer = HomesteadSigner | EIP155Signer int

record Context =
  Origin :: address
  ctx_Coinbase :: address
  ctx_BlockNumber :: int
  ctx_Time :: int
  ctx_Difficulty :: int
  ctx_GasLimit :: uint64
  ctx_GasPrice :: int

record EVM =
  evm_Context :: Context
  evm_chainConfig :: chain_config
  evm_vmConfig :: vm_config

text \<open>The remaining collaborators. \<^verbatim>\<open>ApplyMessage\<close> is the native interpreter's entry: it
  takes the gas pool and the state and returns Go's four results with the pool and the
  state as it left them. \<^verbatim>\<open>rlp_sender_nonce\<close> is the RLP encoding of the pair of an
  address and a nonce.\<close>

record ('s, 'bc) host =
  Sender :: "signer \<Rightarrow> transaction \<Rightarrow> error + address"
  ApplyMessage :: "EVM \<Rightarrow> message \<Rightarrow> uint64 \<Rightarrow> 's \<Rightarrow> (bytes \<times> uint64 \<times> bool \<times> error option) \<times> 's \<times> uint64"
  GetHashFn :: "header \<Rightarrow> 'bc \<Rightarrow> uint64 \<Rightarrow> hash"
  Keccak256 :: "bytes \<Rightarrow> hash"
  rlp_sender_nonce :: "address \<Rightarrow> uint64 \<Rightarrow> bytes"
  CreateBloom :: "receipt list \<Rightarrow> bloom"
  ApplyDAOHardFork :: "'s \<Rightarrow> 's"
  engine_Finalize :: "'bc \<Rightarrow> header \<Rightarrow> transaction list \<Rightarrow> header list \<Rightarrow> 's \<Rightarrow> 's"

section \<open>Helpers of the packages \<^verbatim>\<open>common\<close>, \<^verbatim>\<open>types\<close>, \<^verbatim>\<open>crypto\<close> and \<^verbatim>\<open>core\<close>\<close>

text \<open>The \<open>n\<close> low bytes of a word, most significant first: \<^verbatim>\<open>Hash.Bytes()\<close> with
  \<open>n = 32\<close>, \<^verbatim>\<open>Address.Bytes()\<close> with \<open>n = 20\<close>.\<close>

definition be_bytes :: "nat \<Rightarrow> 'a::len word \<Rightarrow> bytes" where
  "be_bytes n w = map (\<lambda>i. ucast (drop_bit (8 * (n - 1 - i)) w)) [0..<n]"

definition Hash_Bytes :: "hash \<Rightarrow> bytes" where
  "Hash_Bytes h = be_bytes 32 h"

definition Address_Bytes :: "address \<Rightarrow> bytes" where
  "Address_Bytes a = be_bytes 20 a"

text \<open>\<^verbatim>\<open>common.BigToHash\<close>: the big-endian bytes of the absolute value, cut to the 32
  low ones. \<^verbatim>\<open>Hash.Big\<close>: the unsigned value.\<close>

definition BigToHash :: "int \<Rightarrow> hash" where
  "BigToHash b = word_of_int \<bar>b\<bar>"

definition Hash_Big :: "hash \<Rightarrow> int" where
  "Hash_Big h = uint h"

text \<open>\<^verbatim>\<open>(*big.Int).Uint64\<close>: the low 64 bits (of a value that is not negative).\<close>

definition Uint64 :: "int \<Rightarrow> uint64" where
  "Uint64 x = word_of_int x"

text \<open>The three conversions \<^verbatim>\<open>applySputnikTransaction\<close> declares copy 20 or 32 bytes.\<close>

definition asSputnikAddress :: "address \<Rightarrow> address" where
  "asSputnikAddress a = a"

definition asSputnikHash :: "hash \<Rightarrow> hash" where
  "asSputnikHash h = h"

definition asEthAddress :: "address \<Rightarrow> address" where
  "asEthAddress a = a"

text \<open>Modelled from the spec: \<^verbatim>\<open>types.MakeSigner\<close> is not in the files at hand. The signer
  depends on the EIP-155 activation height: the homestead signer before it, the
  chain-ID-bound signer from it on.\<close>

definition MakeSigner :: "chain_config \<Rightarrow> int \<Rightarrow> signer" where
  "MakeSigner config n =
     (if cfg_IsEIP155 config n then EIP155Signer (cfg_ChainID config) else HomesteadSigner)"

text \<open>Modelled from the spec: \<^verbatim>\<open>Transaction.AsMessage\<close> is not in the files at hand. The
  message is the decoded transaction: the sender recovered by the signer, the
  transaction's recipient, nonce, value, gas limit, gas price and input, and the flag
  \<open>check_nonce\<close>, true for a transaction. A signer failure is the error returned.\<close>

definition AsMessage :: "('s, 'bc) host \<Rightarrow> transaction \<Rightarrow> signer \<Rightarrow> error + message" where
  "AsMessage H tx s =
     (case Sender H s tx of
        Inl err \<Rightarrow> Inl err
      | Inr sender \<Rightarrow> Inr \<lparr>
          msg_From = sender,
          msg_To = tx_To tx,
          msg_Nonce = tx_Nonce tx,
          msg_Value = tx_Value tx,
          msg_Gas = tx_Gas tx,
          msg_GasPrice = tx_GasPrice tx,
          msg_Data = tx_Data tx,
          msg_CheckNonce = True \<rparr>)"

text \<open>Modelled from the spec: \<^verbatim>\<open>NewEVMContext\<close> is not in the files at hand. The context
  embeds the sender as origin and the header fields the VM exposes (coinbase, time,
  number, difficulty, gas limit); an author, when given, stands for the coinbase.\<close>

definition NewEVMContext :: "message \<Rightarrow> header \<Rightarrow> address option \<Rightarrow> Context" where
  "NewEVMContext msg hdr author = \<lparr>
     Origin = msg_From msg,
     ctx_Coinbase = (case author of None \<Rightarrow> hdr_Coinbase hdr | Some a \<Rightarrow> a),
     ctx_BlockNumber = hdr_Number hdr,
     ctx_Time = hdr_Time hdr,
     ctx_Difficulty = hdr_Difficulty hdr,
     ctx_GasLimit = hdr_GasLimit hdr,
     ctx_GasPrice = msg_GasPrice msg \<rparr>"

definition NewEVM :: "Context \<Rightarrow> chain_config \<Rightarrow> vm_config \<Rightarrow> EVM" where
  "NewEVM context config cfg =
     \<lparr>evm_Context = context, evm_chainConfig = config, evm_vmConfig = cfg\<rparr>"

text \<open>Modelled from the spec: \<^verbatim>\<open>types.NewReceipt\<close> is not in the files at hand. The receipt
  carries the post-state root, the outcome and the cumulative gas; every other field has
  Go's zero value.\<close>

definition NewReceipt :: "bytes \<Rightarrow> bool \<Rightarrow> uint64 \<Rightarrow> receipt" where
  "NewReceipt root failed cumulativeGasUsed = \<lparr>
     rcpt_PostState = root,
     rcpt_Status = (if failed then ReceiptStatusFailed else ReceiptStatusSuccessful),
     rcpt_CumulativeGasUsed = cumulativeGasUsed,
     rcpt_Bloom = 0,
     rcpt_Logs = [],
     rcpt_TxHash = 0,
     rcpt_ContractAddress = 0,
     rcpt_GasUsed = 0,
     rcpt_BlockHash = 0,
     rcpt_BlockNumber = None,
     rcpt_TransactionIndex = 0 \<rparr>"

text \<open>Modelled from the spec: \<^verbatim>\<open>crypto.CreateAddress\<close> is not in the files at hand. The
  creation address is \<open>keccak256(rlp([sender, nonce]))[12..32]\<close>: the 20 low bytes of
  the hash.\<close>

definition CreateAddress :: "('s, 'bc) host \<Rightarrow> address \<Rightarrow> uint64 \<Rightarrow> address" where
  "CreateAddress H b nonce = ucast (Keccak256 H (rlp_sender_nonce H b nonce))"

section \<open>The native transaction applier\<close>

text \<open>A call returns Go's three results (receipt, gas, error) and, as the code works on
  references, the state database, the gas pool and the counter \<^verbatim>\<open>*usedGas\<close> as the call
  left them.\<close>

type_synonym apply_result = "receipt option \<times> uint64 \<times> error option"

definition applyTransaction ::
  "('s, 'bc) host \<Rightarrow> 's StateDB \<Rightarrow> chain_config \<Rightarrow> 'bc \<Rightarrow> address option \<Rightarrow> uint64 \<Rightarrow> 's \<Rightarrow>
   header \<Rightarrow> transaction \<Rightarrow> uint64 \<Rightarrow> vm_config \<Rightarrow> apply_result \<times> 's \<times> uint64 \<times> uint64" where
  "applyTransaction H D config bc author gp statedb hdr tx usedGas cfg =
     (case AsMessage H tx (MakeSigner config (hdr_Number hdr)) of
        Inl err \<Rightarrow> ((None, 0, Some err), statedb, gp, usedGas)
      | Inr msg \<Rightarrow>
          (let context = NewEVMContext msg hdr author;
               vmenv = NewEVM context config cfg
           in case ApplyMessage H vmenv msg gp statedb of
                (res, s1, gp1) \<Rightarrow>
                  (case res of (ret, gas, failed, err) \<Rightarrow>
                    (case err of
                       Some e \<Rightarrow> ((None, 0, Some e), s1, gp1, usedGas)
                     | None \<Rightarrow>
                         (let (root, s2) =
                                (if cfg_IsEIP658F config (hdr_Number hdr)
                                 then ([], Finalise D (cfg_IsEIP161F config (hdr_Number hdr)) s1)
                                 else (case IntermediateRoot D (cfg_IsEIP161F config (hdr_Number hdr)) s1 of
                                         (h, s) \<Rightarrow> (Hash_Bytes h, s)));
                              usedGas1 = usedGas + gas;
                              r0 = NewReceipt root failed usedGas1;
                              r1 = r0\<lparr>rcpt_TxHash := tx_Hash tx\<rparr>;
                              r2 = r1\<lparr>rcpt_GasUsed := gas\<rparr>;
                              r3 = (if msg_To msg = None
                                    then r2\<lparr>rcpt_ContractAddress :=
                                            CreateAddress H (Origin (evm_Context vmenv)) (tx_Nonce tx)\<rparr>
                                    else r2);
                              r4 = r3\<lparr>rcpt_Logs := GetLogs D s2 (tx_Hash tx)\<rparr>;
                              r5 = r4\<lparr>rcpt_Bloom := CreateBloom H [r4]\<rparr>;
                              r6 = r5\<lparr>rcpt_BlockHash := BlockHash D s2\<rparr>;
                              r7 = r6\<lparr>rcpt_BlockNumber := Some (hdr_Number hdr)\<rparr>;
                              r8 = r7\<lparr>rcpt_TransactionIndex := word_of_int (TxIndex D s2)\<rparr>
                          in ((Some r8, gas, None), s2, gp1, usedGas1))))))"

section \<open>The external-VM adapter\<close>

definition precheckSputnikVMTransaction ::
  "('s, 'bc) host \<Rightarrow> 's StateDB \<Rightarrow> chain_config \<Rightarrow> 's \<Rightarrow> header \<Rightarrow> transaction \<Rightarrow> uint64 \<Rightarrow>
   error option" where
  "precheckSputnikVMTransaction H D config statedb hdr tx usedGas =
     (case AsMessage H tx (MakeSigner config (hdr_Number hdr)) of
        Inl err \<Rightarrow> Some err
      | Inr msg \<Rightarrow>
          (let nonce = GetNonce D statedb (msg_From msg) in
           if msg_CheckNonce msg \<and> nonce < msg_Nonce msg then Some ErrNonceTooHigh
           else if msg_CheckNonce msg \<and> nonce > msg_Nonce msg then Some ErrNonceTooLow
           else
             (let mgval = uint (msg_Gas msg) * tx_GasPrice tx in
              if GetBalance D statedb (msg_From msg) < mgval then Some errInsufficientBalanceForGas
              else if usedGas + msg_Gas msg > hdr_GasLimit hdr then Some ErrGasLimitReached
              else None)))"

text \<open>The request loop \<^verbatim>\<open>OUTER\<close>. It runs until the VM asks for nothing; a VM that keeps
  asking keeps it running, and then the result is \<open>None\<close>.\<close>

partial_function (option) fire_loop ::
  "'vm sputnikvm \<Rightarrow> ('s, 'bc) host \<Rightarrow> 's StateDB \<Rightarrow> 's \<Rightarrow> header \<Rightarrow> 'bc \<Rightarrow> 'vm \<Rightarrow> 'vm option" where
  "fire_loop V H D statedb hdr bc vm =
     (case Fire V vm of
        (ret, vm1) \<Rightarrow>
          (case ret of
             RequireNone \<Rightarrow> Some vm1
           | RequireAccount addr \<Rightarrow>
               (let ethAddress = asEthAddress addr in
                if Exist D statedb ethAddress
                then fire_loop V H D statedb hdr bc
                       (CommitAccount V addr (toBigInt (GetNonce D statedb ethAddress))
                          (GetBalance D statedb ethAddress) (GetCode D statedb ethAddress) vm1)
                else fire_loop V H D statedb hdr bc (CommitNonexist V addr vm1))
           | RequireAccountCode addr \<Rightarrow>
               (let ethAddress = asEthAddress addr in
                if Exist D statedb ethAddress
                then fire_loop V H D statedb hdr bc
                       (CommitAccountCode V addr (GetCode D statedb ethAddress) vm1)
                else fire_loop V H D statedb hdr bc (CommitNonexist V addr vm1))
           | RequireAccountStorage addr skey \<Rightarrow>
               (let ethAddress = asEthAddress addr;
                    key = BigToHash skey
                in if Exist D statedb ethAddress
                   then fire_loop V H D statedb hdr bc
                          (CommitAccountStorage V addr skey
                             (Hash_Big (GetState D statedb ethAddress key)) vm1)
                   else fire_loop V H D statedb hdr bc (CommitNonexist V addr vm1))
           | RequireBlockhash number \<Rightarrow>
               fire_loop V H D statedb hdr bc
                 (CommitBlockhash V number
                    (asSputnikHash (GetHashFn H hdr bc (Uint64 number))) vm1)))"

text \<open>The loops over the changed storage, the account changes and the VM's logs.\<close>

primrec set_storage :: "'s StateDB \<Rightarrow> address \<Rightarrow> storage_item list \<Rightarrow> 's \<Rightarrow> 's" where
  "set_storage D ethAddress [] s = s"
| "set_storage D ethAddress (item # items) s =
     set_storage D ethAddress items
       (SetState D ethAddress (BigToHash (item_Key item)) (BigToHash (item_Value item)) s)"

fun apply_account_change :: "'s StateDB \<Rightarrow> account_change \<Rightarrow> 's \<Rightarrow> 's" where
  "apply_account_change D (AccountChangeIncreaseBalance a amount) s =
     AddBalance D (asEthAddress a) amount s"
| "apply_account_change D (AccountChangeDecreaseBalance a amount) s =
     (let ethAddress = asEthAddress a;
          balance = GetBalance D s ethAddress - amount
      in SetBalance D ethAddress balance s)"
| "apply_account_change D (AccountChangeRemoved a) s = Suicide D (asEthAddress a) s"
| "apply_account_change D (AccountChangeFull a nonce balance code changed) s =
     (let ethAddress = asEthAddress a;
          s1 = SetBalance D ethAddress balance s;
          s2 = SetNonce D ethAddress (Uint64 nonce) s1;
          s3 = SetCode D ethAddress code s2
      in set_storage D ethAddress changed s3)"
| "apply_account_change D (AccountChangeCreate a nonce balance code storage) s =
     (let ethAddress = asEthAddress a;
          s1 = SetBalance D ethAddress balance s;
          s2 = SetNonce D ethAddress (Uint64 nonce) s1;
          s3 = SetCode D ethAddress code s2
      in set_storage D ethAddress storage s3)"

primrec apply_account_changes :: "'s StateDB \<Rightarrow> account_change list \<Rightarrow> 's \<Rightarrow> 's" where
  "apply_account_changes D [] s = s"
| "apply_account_changes D (account # accounts) s =
     apply_account_changes D accounts (apply_account_change D account s)"

primrec add_logs :: "'s StateDB \<Rightarrow> int \<Rightarrow> vm_log list \<Rightarrow> 's \<Rightarrow> 's" where
  "add_logs D currentNumber [] s = s"
| "add_logs D currentNumber (l # ls) s =
     add_logs D currentNumber ls
       (AddLog D \<lparr>
          log_Address = asEthAddress (vlog_Address l),
          log_Topics = map (\<lambda>t. t) (vlog_Topics l),
          log_Data = vlog_Data l,
          log_BlockNumber = Uint64 currentNumber \<rparr> s)"

text \<open>The two parameter records the adapter hands to the VM: \<^verbatim>\<open>vmtx\<close> and
  \<^verbatim>\<open>vmheader\<close>.\<close>

definition sputnik_vmtx :: "transaction \<Rightarrow> message \<Rightarrow> vm_transaction" where
  "sputnik_vmtx tx msg =
     (let addr = (case tx_To tx of None \<Rightarrow> [] | Some to \<Rightarrow> Address_Bytes to)
      in \<lparr>
        vtx_Caller = asSputnikAddress (msg_From msg),
        vtx_GasPrice = tx_GasPrice tx,
        vtx_GasLimit = toBigInt (tx_Gas tx),
        vtx_Address = addr,
        vtx_Value = tx_Value tx,
        vtx_Input = tx_Data tx,
        vtx_Nonce = toBigInt (tx_Nonce tx) \<rparr>)"

definition sputnik_vmheader :: "header \<Rightarrow> HeaderParams" where
  "sputnik_vmheader hdr = \<lparr>
     hp_Beneficiary = asSputnikAddress (hdr_Coinbase hdr),
     hp_Timestamp = hdr_Time hdr,
     hp_Number = hdr_Number hdr,
     hp_Difficulty = hdr_Difficulty hdr,
     hp_GasLimit = toBigInt (hdr_GasLimit hdr) \<rparr>"

definition applySputnikTransaction ::
  "protocol_params \<Rightarrow> 'vm sputnikvm \<Rightarrow> ('s, 'bc) host \<Rightarrow> 's StateDB \<Rightarrow> chain_config \<Rightarrow> 'bc \<Rightarrow>
   address option \<Rightarrow> uint64 \<Rightarrow> 's \<Rightarrow> header \<Rightarrow> transaction \<Rightarrow> uint64 \<Rightarrow> vm_config \<Rightarrow>
   (apply_result \<times> 's \<times> uint64 \<times> uint64) option" where
  "applySputnikTransaction P V H D config bc author gp statedb hdr tx usedGas cfg =
     (case precheckSputnikVMTransaction H D config statedb hdr tx usedGas of
        Some err \<Rightarrow> Some ((None, 0, Some err), statedb, gp, usedGas)
      | None \<Rightarrow>
          (case AsMessage H tx (MakeSigner config (hdr_Number hdr)) of
             Inl err \<Rightarrow> Some ((None, 0, Some err), statedb, gp, usedGas)
           | Inr msg \<Rightarrow>
               (let vmtx = sputnik_vmtx tx msg;
                    vmheader = sputnik_vmheader hdr;
                    currentNumber = hdr_Number hdr;
                    patch = makeSputnikVMPatch P config hdr;
                    vm = NewDynamic V patch vmtx vmheader
                in case fire_loop V H D statedb hdr bc vm of
                     None \<Rightarrow> None
                   | Some vm1 \<Rightarrow>
                       (let s1 = apply_account_changes D (AccountChanges V vm1) statedb;
                            s2 = add_logs D currentNumber (Logs V vm1) s1;
                            (root, s3) =
                              (if cfg_IsEIP658F config (hdr_Number hdr)
                               then ([], Finalise D True s2)
                               else (case IntermediateRoot D (cfg_IsEIP161F config (hdr_Number hdr)) s2 of
                                       (h, s) \<Rightarrow> (Hash_Bytes h, s)));
                            gas = Uint64 (UsedGas V vm1);
                            usedGas1 = usedGas + gas;
                            r0 = NewReceipt root (Failed V vm1) usedGas1;
                            r1 = r0\<lparr>rcpt_TxHash := tx_Hash tx\<rparr>;
                            r2 = r1\<lparr>rcpt_GasUsed := gas\<rparr>;
                            r3 = (if msg_To msg = None
                                  then r2\<lparr>rcpt_ContractAddress :=
                                          CreateAddress H (msg_From msg) (tx_Nonce tx)\<rparr>
                                  else r2);
                            r4 = r3\<lparr>rcpt_Logs := GetLogs D s3 (tx_Hash tx)\<rparr>;
                            r5 = r4\<lparr>rcpt_Bloom := CreateBloom H [r4]\<rparr>
                        in Some ((Some r5, gas, None), s3, gp, usedGas1)))))"

definition ApplyTransaction ::
  "protocol_params \<Rightarrow> 'vm sputnikvm \<Rightarrow> ('s, 'bc) host \<Rightarrow> 's StateDB \<Rightarrow> chain_config \<Rightarrow> 'bc \<Rightarrow>
   address option \<Rightarrow> uint64 \<Rightarrow> 's \<Rightarrow> header \<Rightarrow> transaction \<Rightarrow> uint64 \<Rightarrow> vm_config \<Rightarrow>
   (apply_result \<times> 's \<times> uint64 \<times> uint64) option" where
  "ApplyTransaction P V H D config bc author gp statedb hdr tx usedGas cfg =
     (if EVMInterpreter cfg = ''svm''
      then applySputnikTransaction P V H D config bc author gp statedb hdr tx usedGas cfg
      else Some (applyTransaction H D config bc author gp statedb hdr tx usedGas cfg))"

section \<open>The block processor\<close>

text \<open>The loop over the block's transactions, from index \<open>i\<close> on. It returns \<open>Inl\<close> with
  the error (and the state at that point) when a transaction fails, which makes
  \<^verbatim>\<open>Process\<close> return early. \<open>None\<close> stands for a call that does not return.\<close>

fun process_loop ::
  "protocol_params \<Rightarrow> 'vm sputnikvm \<Rightarrow> ('s, 'bc) host \<Rightarrow> 's StateDB \<Rightarrow> chain_config \<Rightarrow> 'bc \<Rightarrow>
   block \<Rightarrow> vm_config \<Rightarrow> nat \<Rightarrow> transaction list \<Rightarrow>
   receipt list \<times> log list \<times> 's \<times> uint64 \<times> uint64 \<Rightarrow>
   ((error \<times> 's) + (receipt list \<times> log list \<times> 's \<times> uint64 \<times> uint64)) option" where
  "process_loop P V H D config bc b cfg i [] acc = Some (Inr acc)"
| "process_loop P V H D config bc b cfg i (tx # txs) (receipts, allLogs, statedb, gp, usedGas) =
     (let s1 = Prepare D (tx_Hash tx) (blk_Hash b) (int i) statedb in
      case ApplyTransaction P V H D config bc None gp s1 (blk_Header b) tx usedGas cfg of
        None \<Rightarrow> None
      | Some (res, s2, gp2, usedGas2) \<Rightarrow>
          (case res of (rcpt, g, err) \<Rightarrow>
            (case err of
               Some e \<Rightarrow> Some (Inl (e, s2))
             | None \<Rightarrow>
                 (case rcpt of
                    None \<Rightarrow> None
                  | Some r \<Rightarrow>
                      process_loop P V H D config bc b cfg (Suc i) txs
                        (receipts @ [r], allLogs @ rcpt_Logs r, s2, gp2, usedGas2)))))"

type_synonym process_result = "receipt list \<times> log list \<times> uint64 \<times> error option"

definition Process ::
  "protocol_params \<Rightarrow> 'vm sputnikvm \<Rightarrow> ('s, 'bc) host \<Rightarrow> 's StateDB \<Rightarrow> chain_config \<Rightarrow> 'bc \<Rightarrow>
   block \<Rightarrow> 's \<Rightarrow> vm_config \<Rightarrow> (process_result \<times> 's) option" where
  "Process P V H D config bc b statedb cfg =
     (let hdr = blk_Header b;
          gp = 0 + hdr_GasLimit (blk_Header b);
          s0 = (if cfg_DAOForkSupport config \<and> cfg_DAOForkBlock config \<noteq> None
                   \<and> cfg_DAOForkBlock config = Some (hdr_Number (blk_Header b))
                then ApplyDAOHardFork H statedb else statedb)
      in case process_loop P V H D config bc b cfg 0 (blk_Transactions b) ([], [], s0, gp, 0) of
           None \<Rightarrow> None
         | Some (Inl (err, s)) \<Rightarrow> Some (([], [], 0, Some err), s)
         | Some (Inr (receipts, allLogs, s, gp1, usedGas)) \<Rightarrow>
             (let s' = engine_Finalize H bc hdr (blk_Transactions b) (blk_Uncles b) s
              in Some ((receipts, allLogs, usedGas, None), s')))"

section \<open>A reference instance of the collaborators\<close>

text \<open>The theorems below hold for every state database, VM, signer and interpreter. To
  run the processor on concrete blocks they are instantiated with a small world state, a
  VM that replays a script of requests, and an interpreter for plain value transfers.\<close>

record world =
  w_exist :: "address \<Rightarrow> bool"
  w_nonce :: "address \<Rightarrow> uint64"
  w_balance :: "address \<Rightarrow> int"
  w_code :: "address \<Rightarrow> bytes"
  w_storage :: "address \<Rightarrow> hash \<Rightarrow> hash"
  w_logs :: "(hash \<times> log) list"
  w_thash :: hash
  w_bhash :: hash
  w_txIndex :: int

definition world_Finalise :: "bool \<Rightarrow> world \<Rightarrow> world" where
  "world_Finalise deleteEmpty s =
     s\<lparr>w_exist := (\<lambda>a. w_exist s a
          \<and> \<not> (deleteEmpty \<and> w_nonce s a = 0 \<and> w_balance s a = 0 \<and> w_code s a = []))\<rparr>"

definition world_root :: "world \<Rightarrow> hash" where
  "world_root s = word_of_nat (length (w_logs s)) + word_of_int (w_balance s 1) + 1"

definition world_db :: "world StateDB" where
  "world_db = \<lparr>
     Exist = w_exist,
     GetNonce = w_nonce,
     GetBalance = w_balance,
     GetCode = w_code,
     GetState = w_storage,
     AddBalance = (\<lambda>a amount s.
       s\<lparr>w_exist := (w_exist s)(a := True), w_balance := (w_balance s)(a := w_balance s a + amount)\<rparr>),
     SetBalance = (\<lambda>a amount s.
       s\<lparr>w_exist := (w_exist s)(a := True), w_balance := (w_balance s)(a := amount)\<rparr>),
     SetNonce = (\<lambda>a n s.
       s\<lparr>w_exist := (w_exist s)(a := True), w_nonce := (w_nonce s)(a := n)\<rparr>),
     SetCode = (\<lambda>a c s.
       s\<lparr>w_exist := (w_exist s)(a := True), w_code := (w_code s)(a := c)\<rparr>),
     SetState = (\<lambda>a k v s.
       s\<lparr>w_exist := (w_exist s)(a := True), w_storage := (w_storage s)(a := (w_storage s a)(k := v))\<rparr>),
     Suicide = (\<lambda>a s. s\<lparr>w_exist := (w_exist s)(a := False), w_balance := (w_balance s)(a := 0)\<rparr>),
     AddLog = (\<lambda>l s. s\<lparr>w_logs := w_logs s @ [(w_thash s, l)]\<rparr>),
     GetLogs = (\<lambda>s h. map snd (filter (\<lambda>e. fst e = h) (w_logs s))),
     Prepare = (\<lambda>thash bhash ti s. s\<lparr>w_thash := thash, w_bhash := bhash, w_txIndex := ti\<rparr>),
     Finalise = world_Finalise,
     IntermediateRoot = (\<lambda>deleteEmpty s.
       (world_root (world_Finalise deleteEmpty s), world_Finalise deleteEmpty s)),
     BlockHash = w_bhash,
     TxIndex = w_txIndex \<rparr>"

datatype commit =
    CommittedAccount address int int bytes
  | CommittedAccountCode address bytes
  | CommittedAccountStorage address int int
  | CommittedNonexist address
  | CommittedBlockhash int hash

record machine =
  m_requests :: "require list"
  m_commits :: "commit list"
  m_changes :: "account_change list"
  m_logs :: "vm_log list"
  m_used_gas :: int
  m_failed :: bool

text \<open>A VM that asks the requests of its script one by one, records every reply, and
  then reports the script's changes, logs, used gas and outcome. The script is chosen from
  the transaction the VM is built for.\<close>

definition scripted_vm :: "(vm_transaction \<Rightarrow> machine) \<Rightarrow> machine sputnikvm" where
  "scripted_vm script = \<lparr>
     NewDynamic = (\<lambda>patch vmtx vmheader. script vmtx),
     Fire = (\<lambda>m. case m_requests m of [] \<Rightarrow> (RequireNone, m) | r # rs \<Rightarrow> (r, m\<lparr>m_requests := rs\<rparr>)),
     CommitAccount = (\<lambda>a n b c m. m\<lparr>m_commits := m_commits m @ [CommittedAccount a n b c]\<rparr>),
     CommitAccountCode = (\<lambda>a c m. m\<lparr>m_commits := m_commits m @ [CommittedAccountCode a c]\<rparr>),
     CommitAccountStorage = (\<lambda>a k v m. m\<lparr>m_commits := m_commits m @ [CommittedAccountStorage a k v]\<rparr>),
     CommitNonexist = (\<lambda>a m. m\<lparr>m_commits := m_commits m @ [CommittedNonexist a]\<rparr>),
     CommitBlockhash = (\<lambda>n h m. m\<lparr>m_commits := m_commits m @ [CommittedBlockhash n h]\<rparr>),
     AccountChanges = m_changes,
     Logs = m_logs,
     UsedGas = m_used_gas,
     Failed = m_failed \<rparr>"

text \<open>An interpreter for plain transfers: it takes the message's gas from the pool,
  refuses a message with less than the base cost of 21000 gas, bumps the sender's nonce,
  moves the value and returns the unused gas to the pool.\<close>

definition transfer_ApplyMessage ::
  "EVM \<Rightarrow> message \<Rightarrow> uint64 \<Rightarrow> world \<Rightarrow> (bytes \<times> uint64 \<times> bool \<times> error option) \<times> world \<times> uint64" where
  "transfer_ApplyMessage vmenv msg gp s =
     (if gp < msg_Gas msg then (([], 0, False, Some ErrGasLimitReached), s, gp)
      else if msg_Gas msg < 21000 then (([], 0, False, Some (InterpreterError 1)), s, gp - msg_Gas msg)
      else
        (let sender = msg_From msg;
             rcv = (case msg_To msg of None \<Rightarrow> 0 | Some a \<Rightarrow> a);
             s1 = s\<lparr>w_nonce := (w_nonce s)(sender := w_nonce s sender + 1)\<rparr>;
             s2 = s1\<lparr>w_balance := (w_balance s1)(sender := w_balance s1 sender - msg_Value msg)\<rparr>;
             s3 = s2\<lparr>w_exist := (w_exist s2)(rcv := True),
                     w_balance := (w_balance s2)(rcv := w_balance s2 rcv + msg_Value msg)\<rparr>
         in (([], 21000, False, None), s3, gp - 21000)))"

definition transfer_host :: "(world, unit) host" where
  "transfer_host = \<lparr>
     Sender = (\<lambda>sg tx. if tx_Signature tx = 0 then Inl (SignerError 0)
                        else Inr (word_of_nat (tx_Signature tx))),
     ApplyMessage = transfer_ApplyMessage,
     GetHashFn = (\<lambda>hdr bc n. ucast n + 4096),
     Keccak256 = (\<lambda>bs. word_of_nat (length bs) + 160),
     rlp_sender_nonce = (\<lambda>a n. Address_Bytes a @ be_bytes 8 n),
     CreateBloom = (\<lambda>rs. word_of_nat (length (concat (map rcpt_Logs rs)))),
     ApplyDAOHardFork = (\<lambda>s. s),
     engine_Finalize = (\<lambda>bc hdr txs uncles s. s) \<rparr>"

definition example_rules :: "bool \<Rightarrow> rules" where
  "example_rules on = \<lparr>
     IsEIP2F = True, IsEIP7F = True, IsEIP140F = on, IsEIP145F = False, IsEIP150 = True,
     IsEIP161F = on, IsEIP198F = on, IsEIP211F = on, IsEIP212F = on, IsEIP213F = on,
     IsEIP214F = on, IsEIP1014F = False, IsEIP1052F = False, IsEIP1283F = False \<rparr>"

definition example_gas_table :: gas_table where
  "example_gas_table = \<lparr>
     gt_ExtcodeCopy = 700, gt_Balance = 400, gt_SLoad = 200, gt_Suicide = 5000,
     gt_CreateBySuicide = 25000, gt_Calls = 700, gt_ExpByte = 50 \<rparr>"

text \<open>A chain on which EIP-155 and 170 and the rules of their fork start at block 10,
  EIP-161 at block \<open>b161\<close> and EIP-658 at block \<open>b658\<close>.\<close>

definition example_config :: "int \<Rightarrow> int \<Rightarrow> chain_config" where
  "example_config b161 b658 = \<lparr>
     cfg_ChainID = 1,
     cfg_DAOForkSupport = False,
     cfg_DAOForkBlock = None,
     cfg_IsEIP155 = (\<lambda>n. 10 \<le> n),
     cfg_IsEIP161F = (\<lambda>n. b161 \<le> n),
     cfg_IsEIP170F = (\<lambda>n. 10 \<le> n),
     cfg_IsEIP658F = (\<lambda>n. b658 \<le> n),
     cfg_Rules = (\<lambda>n. (example_rules (10 \<le> n))\<lparr>IsEIP161F := b161 \<le> n\<rparr>),
     cfg_GasTable = (\<lambda>n. example_gas_table) \<rparr>"

definition example_params :: protocol_params where
  "example_params = \<lparr>MaxCodeSize = 24576, CallCreateDepth = 1024, CreateGas = 32000\<rparr>"

definition example_header :: "int \<Rightarrow> uint64 \<Rightarrow> header" where
  "example_header n gasLimit = \<lparr>
     hdr_Number = n, hdr_Time = 1500000000, hdr_Coinbase = 9, hdr_Difficulty = 131072,
     hdr_GasLimit = gasLimit \<rparr>"

text \<open>A transaction of no value signed by account 1, with a nonce, a gas limit, a gas
  price and a recipient; its hash is 77 plus its nonce.\<close>

definition example_tx :: "uint64 \<Rightarrow> uint64 \<Rightarrow> int \<Rightarrow> address option \<Rightarrow> transaction" where
  "example_tx n gas price to = \<lparr>
     tx_Nonce = n, tx_GasPrice = price, tx_Gas = gas, tx_To = to, tx_Value = 0, tx_Data = [],
     tx_Hash = ucast n + 77, tx_Signature = 1 \<rparr>"

text \<open>A world in which account 1 exists, with nonce \<open>n\<close> and a balance of 1000000.\<close>

definition example_world :: "uint64 \<Rightarrow> world" where
  "example_world n = \<lparr>
     w_exist = (\<lambda>a. a = 1),
     w_nonce = (\<lambda>a. if a = 1 then n else 0),
     w_balance = (\<lambda>a. if a = 1 then 1000000 else 0),
     w_code = (\<lambda>a. []),
     w_storage = (\<lambda>a k. 0),
     w_logs = [],
     w_thash = 0,
     w_bhash = 0,
     w_txIndex = 0 \<rparr>"

text \<open>The script of a VM run that asks for the caller's account, bumps the caller's
  nonce, leaves its balance of 1000000 and uses \<open>used\<close> gas.\<close>

definition burner_script :: "int \<Rightarrow> vm_transaction \<Rightarrow> machine" where
  "burner_script used vmtx = \<lparr>
     m_requests = [RequireAccount (vtx_Caller vmtx)],
     m_commits = [],
     m_changes = [AccountChangeFull (vtx_Caller vmtx) (vtx_Nonce vmtx + 1) 1000000 [] []],
     m_logs = [],
     m_used_gas = used,
     m_failed = False \<rparr>"

text \<open>A machine that still has the requests \<open>rs\<close> to ask and has recorded the replies
  \<open>cs\<close>.\<close>

definition asking :: "require list \<Rightarrow> commit list \<Rightarrow> machine" where
  "asking rs cs = \<lparr>
     m_requests = rs, m_commits = cs, m_changes = [], m_logs = [], m_used_gas = 21000,
     m_failed = False \<rparr>"

definition native_config :: vm_config where
  "native_config = \<lparr>EVMInterpreter = ''evm''\<rparr>"

definition svm_config :: vm_config where
  "svm_config = \<lparr>EVMInterpreter = ''svm''\<rparr>"

section \<open>Facts about the request loop\<close>

lemma fire_loop_RequireNone:
  "Fire V vm = (RequireNone, vm1) \<Longrightarrow> fire_loop V H D statedb hdr bc vm = Some vm1"
  by (subst fire_loop.simps) simp

lemma fire_loop_RequireAccount:
  "Fire V vm = (RequireAccount addr, vm1) \<Longrightarrow>
   fire_loop V H D statedb hdr bc vm =
     fire_loop V H D statedb hdr bc
       (if Exist D statedb (asEthAddress addr)
        then CommitAccount V addr (toBigInt (GetNonce D statedb (asEthAddress addr)))
               (GetBalance D statedb (asEthAddress addr)) (GetCode D statedb (asEthAddress addr)) vm1
        else CommitNonexist V addr vm1)"
  by (subst fire_loop.simps) (simp add: Let_def)

lemma fire_loop_RequireAccountCode:
  "Fire V vm = (RequireAccountCode addr, vm1) \<Longrightarrow>
   fire_loop V H D statedb hdr bc vm =
     fire_loop V H D statedb hdr bc
       (if Exist D statedb (asEthAddress addr)
        then CommitAccountCode V addr (GetCode D statedb (asEthAddress addr)) vm1
        else CommitNonexist V addr vm1)"
  by (subst fire_loop.simps) (simp add: Let_def)

lemma fire_loop_RequireAccountStorage:
  "Fire V vm = (RequireAccountStorage addr skey, vm1) \<Longrightarrow>
   fire_loop V H D statedb hdr bc vm =
     fire_loop V H D statedb hdr bc
       (if Exist D statedb (asEthAddress addr)
        then CommitAccountStorage V addr skey
               (Hash_Big (GetState D statedb (asEthAddress addr) (BigToHash skey))) vm1
        else CommitNonexist V addr vm1)"
  by (subst fire_loop.simps) (simp add: Let_def)

lemma fire_loop_RequireBlockhash:
  "Fire V vm = (RequireBlockhash number, vm1) \<Longrightarrow>
   fire_loop V H D statedb hdr bc vm =
     fire_loop V H D statedb hdr bc
       (CommitBlockhash V number (asSputnikHash (GetHashFn H hdr bc (Uint64 number))) vm1)"
  by (subst fire_loop.simps) simp

lemma fire_loop_exit_only_on_RequireNone:
  assumes "fire_loop V H D statedb hdr bc vm = Some vm'"
  shows "\<exists>vm0. Fire V vm0 = (RequireNone, vm')"
  by (rule fire_loop.raw_induct
        [where P = "\<lambda>V H D statedb hdr bc vm vm'. \<exists>vm0. Fire V vm0 = (RequireNone, vm')", OF _ assms])
     (auto split: prod.splits require.splits if_splits simp: Let_def)

section \<open>What a returned receipt says about the call\<close>

lemma applySputnikTransaction_receiptD:
  assumes "applySputnikTransaction P V H D config bc author gp statedb hdr tx usedGas cfg
             = Some ((Some r, g, err), s', gp', ug')"
  shows "\<exists>msg vm1.
           precheckSputnikVMTransaction H D config statedb hdr tx usedGas = None
         \<and> AsMessage H tx (MakeSigner config (hdr_Number hdr)) = Inr msg
         \<and> fire_loop V H D statedb hdr bc
              (NewDynamic V (makeSputnikVMPatch P config hdr) (sputnik_vmtx tx msg) (sputnik_vmheader hdr))
             = Some vm1
         \<and> err = None \<and> gp' = gp \<and> g = Uint64 (UsedGas V vm1) \<and> ug' = usedGas + g
         \<and> (if cfg_IsEIP658F config (hdr_Number hdr)
             then s' = Finalise D True
                         (add_logs D (hdr_Number hdr) (Logs V vm1)
                            (apply_account_changes D (AccountChanges V vm1) statedb))
                \<and> rcpt_PostState r = []
             else s' = snd (IntermediateRoot D (cfg_IsEIP161F config (hdr_Number hdr))
                         (add_logs D (hdr_Number hdr) (Logs V vm1)
                            (apply_account_changes D (AccountChanges V vm1) statedb)))
                \<and> rcpt_PostState r = Hash_Bytes (fst (IntermediateRoot D (cfg_IsEIP161F config (hdr_Number hdr))
                         (add_logs D (hdr_Number hdr) (Logs V vm1)
                            (apply_account_changes D (AccountChanges V vm1) statedb)))))
         \<and> rcpt_Status r = (if Failed V vm1 then ReceiptStatusFailed else ReceiptStatusSuccessful)
         \<and> rcpt_CumulativeGasUsed r = ug'
         \<and> rcpt_TxHash r = tx_Hash tx
         \<and> rcpt_GasUsed r = g
         \<and> rcpt_ContractAddress r =
              (if msg_To msg = None then CreateAddress H (msg_From msg) (tx_Nonce tx) else 0)
         \<and> rcpt_Logs r = GetLogs D s' (tx_Hash tx)
         \<and> rcpt_BlockHash r = 0 \<and> rcpt_BlockNumber r = None \<and> rcpt_TransactionIndex r = 0"
proof -
  from assms obtain msg where pc: "precheckSputnikVMTransaction H D config statedb hdr tx usedGas = None"
    and am: "AsMessage H tx (MakeSigner config (hdr_Number hdr)) = Inr msg"
    by (auto simp: applySputnikTransaction_def split: option.splits sum.splits)
  with assms obtain vm1 where fl: "fire_loop V H D statedb hdr bc
              (NewDynamic V (makeSputnikVMPatch P config hdr) (sputnik_vmtx tx msg) (sputnik_vmheader hdr))
             = Some vm1"
    by (auto simp: applySputnikTransaction_def Let_def split: option.splits)
  show ?thesis
    apply (rule exI[of _ msg], rule exI[of _ vm1])
    using assms pc am fl unfolding applySputnikTransaction_def
    by (auto simp: Let_def NewReceipt_def split: prod.splits if_splits)
qed

section \<open>Facts about the message, the pre-check and the two appliers\<close>

lemma AsMessage_InrD:
  "AsMessage H tx sg = Inr msg \<Longrightarrow>
     Sender H sg tx = Inr (msg_From msg) \<and> msg_To msg = tx_To tx \<and> msg_Nonce msg = tx_Nonce tx
     \<and> msg_Gas msg = tx_Gas tx \<and> msg_GasPrice msg = tx_GasPrice tx \<and> msg_CheckNonce msg"
  by (auto simp: AsMessage_def split: sum.splits)

lemma precheck_Inr:
  assumes "AsMessage H tx (MakeSigner config (hdr_Number hdr)) = Inr msg"
  shows "precheckSputnikVMTransaction H D config statedb hdr tx usedGas =
     (if GetNonce D statedb (msg_From msg) < tx_Nonce tx then Some ErrNonceTooHigh
      else if tx_Nonce tx < GetNonce D statedb (msg_From msg) then Some ErrNonceTooLow
      else if GetBalance D statedb (msg_From msg) < uint (tx_Gas tx) * tx_GasPrice tx
        then Some errInsufficientBalanceForGas
      else if hdr_GasLimit hdr < usedGas + tx_Gas tx then Some ErrGasLimitReached
      else None)"
  using assms AsMessage_InrD[OF assms]
  by (simp add: precheckSputnikVMTransaction_def Let_def)

lemma applySputnikTransaction_returns:
  assumes "precheckSputnikVMTransaction H D config statedb hdr tx usedGas = None"
    and "AsMessage H tx (MakeSigner config (hdr_Number hdr)) = Inr msg"
    and "fire_loop V H D statedb hdr bc
           (NewDynamic V (makeSputnikVMPatch P config hdr) (sputnik_vmtx tx msg) (sputnik_vmheader hdr))
          = Some vm1"
  shows "\<exists>r s'. applySputnikTransaction P V H D config bc author gp statedb hdr tx usedGas cfg
           = Some ((Some r, Uint64 (UsedGas V vm1), None), s', gp, usedGas + Uint64 (UsedGas V vm1))"
  using assms by (simp add: applySputnikTransaction_def Let_def split: prod.splits)

lemma applySputnikTransaction_rejects:
  assumes "precheckSputnikVMTransaction H D config statedb hdr tx usedGas = Some e"
  shows "applySputnikTransaction P V H D config bc author gp statedb hdr tx usedGas cfg
           = Some ((None, 0, Some e), statedb, gp, usedGas)"
  using assms by (simp add: applySputnikTransaction_def)

lemma applyTransaction_receiptD:
  assumes "applyTransaction H D config bc author gp statedb hdr tx usedGas cfg
             = ((Some r, g, err), s', gp', ug')"
  shows "\<exists>msg ret failed s1.
           AsMessage H tx (MakeSigner config (hdr_Number hdr)) = Inr msg
         \<and> ApplyMessage H (NewEVM (NewEVMContext msg hdr author) config cfg) msg gp statedb
             = ((ret, g, failed, None), s1, gp')
         \<and> err = None \<and> ug' = usedGas + g
         \<and> (if cfg_IsEIP658F config (hdr_Number hdr)
             then s' = Finalise D (cfg_IsEIP161F config (hdr_Number hdr)) s1 \<and> rcpt_PostState r = []
             else s' = snd (IntermediateRoot D (cfg_IsEIP161F config (hdr_Number hdr)) s1)
                \<and> rcpt_PostState r =
                    Hash_Bytes (fst (IntermediateRoot D (cfg_IsEIP161F config (hdr_Number hdr)) s1)))
         \<and> rcpt_Status r = (if failed then ReceiptStatusFailed else ReceiptStatusSuccessful)
         \<and> rcpt_CumulativeGasUsed r = ug'
         \<and> rcpt_TxHash r = tx_Hash tx
         \<and> rcpt_GasUsed r = g
         \<and> rcpt_ContractAddress r =
              (if msg_To msg = None then CreateAddress H (msg_From msg) (tx_Nonce tx) else 0)
         \<and> rcpt_Logs r = GetLogs D s' (tx_Hash tx)
         \<and> rcpt_BlockHash r = BlockHash D s'
         \<and> rcpt_BlockNumber r = Some (hdr_Number hdr)
         \<and> rcpt_TransactionIndex r = word_of_int (TxIndex D s')"
proof -
  from assms obtain msg where am: "AsMessage H tx (MakeSigner config (hdr_Number hdr)) = Inr msg"
    by (auto simp: applyTransaction_def split: sum.splits)
  obtain ret g0 failed e0 s1 gp1 where ap:
    "ApplyMessage H (NewEVM (NewEVMContext msg hdr author) config cfg) msg gp statedb
       = ((ret, g0, failed, e0), s1, gp1)"
    by (metis prod_cases3 prod.exhaust)
  from assms am ap have e0: "e0 = None"
    by (auto simp: applyTransaction_def Let_def split: option.splits)
  show ?thesis
    apply (rule exI[of _ msg], rule exI[of _ ret], rule exI[of _ failed], rule exI[of _ s1])
    using assms am ap e0 unfolding applyTransaction_def
    by (auto simp: Let_def NewReceipt_def NewEVM_def NewEVMContext_def split: prod.splits if_splits)
qed

lemma Hash_Bytes_length: "length (Hash_Bytes h) = 32"
  by (simp add: Hash_Bytes_def be_bytes_def)

lemma applyTransaction_returns:
  assumes "AsMessage H tx (MakeSigner config (hdr_Number hdr)) = Inr msg"
    and "ApplyMessage H (NewEVM (NewEVMContext msg hdr author) config cfg) msg gp statedb
           = ((ret, g, failed, None), s1, gp1)"
  shows "\<exists>r s'. applyTransaction H D config bc author gp statedb hdr tx usedGas cfg
           = ((Some r, g, None), s', gp1, usedGas + g)"
  using assms by (simp add: applyTransaction_def Let_def split: prod.splits)

section \<open>Running the reference instance\<close>

lemma world_db_simps:
  "Exist world_db = w_exist" "GetNonce world_db = w_nonce" "GetBalance world_db = w_balance"
  "GetCode world_db = w_code" "GetState world_db = w_storage"
  "GetLogs world_db s h = map snd (filter (\<lambda>e. fst e = h) (w_logs s))"
  "Prepare world_db thash bhash ti s = s\<lparr>w_thash := thash, w_bhash := bhash, w_txIndex := ti\<rparr>"
  "Finalise world_db = world_Finalise"
  "IntermediateRoot world_db deleteEmpty s =
     (world_root (world_Finalise deleteEmpty s), world_Finalise deleteEmpty s)"
  "BlockHash world_db = w_bhash" "TxIndex world_db = w_txIndex"
  "SetBalance world_db a amount s =
     s\<lparr>w_exist := (w_exist s)(a := True), w_balance := (w_balance s)(a := amount)\<rparr>"
  "SetNonce world_db a n s = s\<lparr>w_exist := (w_exist s)(a := True), w_nonce := (w_nonce s)(a := n)\<rparr>"
  "SetCode world_db a c s = s\<lparr>w_exist := (w_exist s)(a := True), w_code := (w_code s)(a := c)\<rparr>"
  "AddLog world_db l s = s\<lparr>w_logs := w_logs s @ [(w_thash s, l)]\<rparr>"
  by (simp_all add: world_db_def)

lemma scripted_vm_simps:
  "NewDynamic (scripted_vm sc) patch vmtx vmheader = sc vmtx"
  "AccountChanges (scripted_vm sc) = m_changes" "Logs (scripted_vm sc) = m_logs"
  "UsedGas (scripted_vm sc) = m_used_gas" "Failed (scripted_vm sc) = m_failed"
  by (simp_all add: scripted_vm_def)

lemma example_config_simps:
  "cfg_IsEIP658F (example_config b161 b658) n = (b658 \<le> n)"
  "cfg_IsEIP161F (example_config b161 b658) n = (b161 \<le> n)"
  "cfg_DAOForkSupport (example_config b161 b658) = False"
  by (simp_all add: example_config_def)

lemma example_header_simps:
  "hdr_Number (example_header n limit) = n" "hdr_GasLimit (example_header n limit) = limit"
  by (simp_all add: example_header_def)

lemma example_tx_simps:
  "tx_Nonce (example_tx n gas price to) = n" "tx_Gas (example_tx n gas price to) = gas"
  "tx_GasPrice (example_tx n gas price to) = price" "tx_To (example_tx n gas price to) = to"
  "tx_Hash (example_tx n gas price to) = ucast n + 77"
  by (simp_all add: example_tx_def)

lemma example_AsMessage:
  "AsMessage transfer_host (example_tx n gas price to) sg =
     Inr \<lparr>msg_From = 1, msg_To = to, msg_Nonce = n, msg_Value = 0, msg_Gas = gas,
          msg_GasPrice = price, msg_Data = [], msg_CheckNonce = True\<rparr>"
  by (simp add: AsMessage_def transfer_host_def example_tx_def)

lemma example_precheck:
  "precheckSputnikVMTransaction transfer_host world_db config s (example_header b limit)
     (example_tx n gas price to) usedGas =
     (if w_nonce s 1 < n then Some ErrNonceTooHigh
      else if n < w_nonce s 1 then Some ErrNonceTooLow
      else if w_balance s 1 < uint gas * price then Some errInsufficientBalanceForGas
      else if limit < usedGas + gas then Some ErrGasLimitReached
      else None)"
  by (subst precheck_Inr[OF example_AsMessage])
     (simp add: world_db_def example_tx_def example_header_def)

lemma scripted_fire_loop_account:
  assumes "m_requests m = [RequireAccount a]" and "w_exist s a"
  shows "fire_loop (scripted_vm sc) H world_db s hdr bc m =
           Some (m\<lparr>m_requests := [],
                   m_commits := m_commits m @ [CommittedAccount a (uint (w_nonce s a)) (w_balance s a) (w_code s a)]\<rparr>)"
proof -
  have f1: "Fire (scripted_vm sc) m = (RequireAccount a, m\<lparr>m_requests := []\<rparr>)"
    using assms by (simp add: scripted_vm_def)
  have f2: "Fire (scripted_vm sc) (m\<lparr>m_requests := [],
                   m_commits := m_commits m @ [CommittedAccount a (uint (w_nonce s a)) (w_balance s a) (w_code s a)]\<rparr>)
            = (RequireNone, m\<lparr>m_requests := [],
                   m_commits := m_commits m @ [CommittedAccount a (uint (w_nonce s a)) (w_balance s a) (w_code s a)]\<rparr>)"
    by (simp add: scripted_vm_def)
  have c: "CommitAccount (scripted_vm sc) a (toBigInt (GetNonce world_db s (asEthAddress a)))
             (GetBalance world_db s (asEthAddress a)) (GetCode world_db s (asEthAddress a)) (m\<lparr>m_requests := []\<rparr>)
           = m\<lparr>m_requests := [],
                   m_commits := m_commits m @ [CommittedAccount a (uint (w_nonce s a)) (w_balance s a) (w_code s a)]\<rparr>"
    by (simp add: scripted_vm_def world_db_def toBigInt_def asEthAddress_def)
  have e: "Exist world_db s (asEthAddress a)"
    using assms by (simp add: world_db_def asEthAddress_def)
  show ?thesis
    by (simp add: fire_loop_RequireAccount[OF f1] e c fire_loop_RequireNone[OF f2])
qed

lemma burner_fire_loop:
  assumes "w_exist s 1"
  shows "fire_loop (scripted_vm (burner_script used)) H world_db s hdr bc
           (NewDynamic (scripted_vm (burner_script used)) patch
              (sputnik_vmtx (example_tx n gas price to)
                 \<lparr>msg_From = 1, msg_To = to, msg_Nonce = n, msg_Value = 0, msg_Gas = gas,
                  msg_GasPrice = price, msg_Data = [], msg_CheckNonce = True\<rparr>) vmheader)
         = Some \<lparr>m_requests = [],
                 m_commits = [CommittedAccount 1 (uint (w_nonce s 1)) (w_balance s 1) (w_code s 1)],
                 m_changes = [AccountChangeFull 1 (uint n + 1) 1000000 [] []],
                 m_logs = [], m_used_gas = used, m_failed = False\<rparr>"
proof -
  have nd: "NewDynamic (scripted_vm (burner_script used)) patch
              (sputnik_vmtx (example_tx n gas price to)
                 \<lparr>msg_From = 1, msg_To = to, msg_Nonce = n, msg_Value = 0, msg_Gas = gas,
                  msg_GasPrice = price, msg_Data = [], msg_CheckNonce = True\<rparr>) vmheader
          = \<lparr>m_requests = [RequireAccount 1], m_commits = [],
             m_changes = [AccountChangeFull 1 (uint n + 1) 1000000 [] []],
             m_logs = [], m_used_gas = used, m_failed = False\<rparr>"
    by (simp add: scripted_vm_def burner_script_def sputnik_vmtx_def asSputnikAddress_def
          example_tx_def toBigInt_def Let_def)
  show ?thesis
    unfolding nd using assms by (subst scripted_fire_loop_account[where a = 1]) simp_all
qed


lemma transfer_ApplyMessage_runs:
  assumes "\<not> gp < msg_Gas msg" and "\<not> msg_Gas msg < 21000"
  shows "\<exists>s1. ApplyMessage transfer_host vmenv msg gp s = (([], 21000, False, None), s1, gp - 21000)
            \<and> w_exist s1 (msg_From msg) = (w_exist s (msg_From msg) \<or> msg_To msg = Some (msg_From msg)
                  \<or> (msg_To msg = None \<and> msg_From msg = 0))
            \<and> w_nonce s1 (msg_From msg) = w_nonce s (msg_From msg) + 1
            \<and> w_logs s1 = w_logs s \<and> w_thash s1 = w_thash s \<and> w_bhash s1 = w_bhash s
            \<and> w_txIndex s1 = w_txIndex s"
  using assms
  by (auto simp: transfer_host_def transfer_ApplyMessage_def Let_def split: option.splits)

lemma burner_step:
  assumes ex: "w_exist s 1" and nn: "w_nonce s 1 = n"
    and bal: "\<not> w_balance s 1 < uint gas * price" and lim: "\<not> limit < ug + gas"
  shows "\<exists>r s'. applySputnikTransaction example_params (scripted_vm (burner_script used)) transfer_host
             world_db (example_config b161 b658) () None gp s (example_header b limit)
             (example_tx n gas price to) ug svm_config
           = Some ((Some r, Uint64 used, None), s', gp, ug + Uint64 used)
         \<and> w_exist s' 1 \<and> w_nonce s' 1 = n + 1 \<and> w_balance s' 1 = 1000000
         \<and> w_logs s' = w_logs s \<and> w_thash s' = w_thash s \<and> w_bhash s' = w_bhash s
         \<and> w_txIndex s' = w_txIndex s
         \<and> rcpt_GasUsed r = Uint64 used \<and> rcpt_CumulativeGasUsed r = ug + Uint64 used
         \<and> rcpt_TxHash r = ucast n + 77 \<and> rcpt_BlockNumber r = None"
proof -
  have pc: "precheckSputnikVMTransaction transfer_host world_db (example_config b161 b658) s
              (example_header b limit) (example_tx n gas price to) ug = None"
    using nn bal lim by (simp add: example_precheck)
  note fl = burner_fire_loop[OF ex, of used transfer_host "example_header b limit" "()"
      "makeSputnikVMPatch example_params (example_config b161 b658) (example_header b limit)"
      n gas price to "sputnik_vmheader (example_header b limit)"]
  from applySputnikTransaction_returns[OF pc example_AsMessage fl, of None gp svm_config]
  obtain r s' where ev:
    "applySputnikTransaction example_params (scripted_vm (burner_script used)) transfer_host
             world_db (example_config b161 b658) () None gp s (example_header b limit)
             (example_tx n gas price to) ug svm_config
           = Some ((Some r, Uint64 used, None), s', gp, ug + Uint64 used)"
    by (auto simp: scripted_vm_simps)
  have st: "w_exist s' 1 \<and> w_nonce s' 1 = n + 1 \<and> w_balance s' 1 = 1000000
         \<and> w_logs s' = w_logs s \<and> w_thash s' = w_thash s \<and> w_bhash s' = w_bhash s
         \<and> w_txIndex s' = w_txIndex s
         \<and> rcpt_GasUsed r = Uint64 used \<and> rcpt_CumulativeGasUsed r = ug + Uint64 used
         \<and> rcpt_TxHash r = ucast n + 77 \<and> rcpt_BlockNumber r = None"
    using applySputnikTransaction_receiptD[OF ev] fl
    by (auto simp: example_AsMessage scripted_vm_simps world_db_simps example_config_simps
          example_header_simps example_tx_simps asEthAddress_def Let_def Uint64_def world_Finalise_def
          split: if_splits)
  from ev st show ?thesis by blast
qed


lemma transfer_step:
  assumes "\<not> gp < gas" and "\<not> gas < 21000"
  shows "\<exists>r s'. applyTransaction transfer_host world_db (example_config b161 b658) () None gp s
             (example_header b limit) (example_tx n gas price to) ug native_config
           = ((Some r, 21000, None), s', gp - 21000, ug + 21000)
         \<and> w_nonce s' 1 = w_nonce s 1 + 1
         \<and> w_logs s' = w_logs s \<and> w_thash s' = w_thash s \<and> w_bhash s' = w_bhash s
         \<and> w_txIndex s' = w_txIndex s"
proof -
  let ?msg = "\<lparr>msg_From = 1, msg_To = to, msg_Nonce = n, msg_Value = 0, msg_Gas = gas,
          msg_GasPrice = price, msg_Data = [], msg_CheckNonce = True\<rparr>"
  from transfer_ApplyMessage_runs[of gp ?msg "NewEVM (NewEVMContext ?msg (example_header b limit) None)
       (example_config b161 b658) native_config" s] assms
  obtain s1 where ap: "ApplyMessage transfer_host (NewEVM (NewEVMContext ?msg (example_header b limit) None)
       (example_config b161 b658) native_config) ?msg gp s = (([], 21000, False, None), s1, gp - 21000)"
    and s1: "w_nonce s1 1 = w_nonce s 1 + 1" "w_logs s1 = w_logs s" "w_thash s1 = w_thash s"
       "w_bhash s1 = w_bhash s" "w_txIndex s1 = w_txIndex s"
    by auto
  from applyTransaction_returns[OF example_AsMessage ap]
  obtain r s' where ev: "applyTransaction transfer_host world_db (example_config b161 b658) () None gp s
             (example_header b limit) (example_tx n gas price to) ug native_config
           = ((Some r, 21000, None), s', gp - 21000, ug + 21000)"
    by blast
  have "w_nonce s' 1 = w_nonce s 1 + 1
         \<and> w_logs s' = w_logs s \<and> w_thash s' = w_thash s \<and> w_bhash s' = w_bhash s
         \<and> w_txIndex s' = w_txIndex s"
    using applyTransaction_receiptD[OF ev] ap s1
    by (auto simp: example_AsMessage world_db_simps world_Finalise_def split: if_splits)
  with ev show ?thesis by blast
qed

section \<open>The patch builder's precompiles and account model\<close>

text \<open>
  Claim C8. The patch built by \<^verbatim>\<open>makeSputnikVMPatch\<close> enables the precompiled contracts
  at addresses 1 to 4 always, address 5 exactly when EIP-198 is in the rule set of
  \<^verbatim>\<open>header.Number\<close>, addresses 6 and 7 exactly when EIP-213 is, address 8 exactly when
  EIP-212 is, in this order and nothing else; its account patch has initial nonce 0,
  initial create nonce 1 when EIP-161 is active and 0 otherwise, counts an empty account
  as existing exactly when EIP-161 is not active, and allows partial changes.
\<close>

theorem C8_patch_precompiles_and_account_model:
  "(let p = makeSputnikVMPatch P config hdr;
        rs = cfg_Rules config (hdr_Number hdr)
    in EnabledContracts (patch_builder p) =
         [1, 2, 3, 4] @ (if IsEIP198F rs then [5] else [])
           @ (if IsEIP213F rs then [6, 7] else []) @ (if IsEIP212F rs then [8] else [])
       \<and> (5 \<in> set (EnabledContracts (patch_builder p))) = IsEIP198F rs
       \<and> (6 \<in> set (EnabledContracts (patch_builder p))) = IsEIP213F rs
       \<and> (7 \<in> set (EnabledContracts (patch_builder p))) = IsEIP213F rs
       \<and> (8 \<in> set (EnabledContracts (patch_builder p))) = IsEIP212F rs
       \<and> InitialNonce (patch_account p) = 0
       \<and> InitialCreateNonce (patch_account p) = (if IsEIP161F rs then 1 else 0)
       \<and> EmptyConsideredExists (patch_account p) = (\<not> IsEIP161F rs)
       \<and> AllowPartialChange (patch_account p) = True)"
  by (simp add: makeSputnikVMPatch_def NewDynamicPatch_def enabledPrecompileds_def
      BytesToAddress1_def toBigInt_def Let_def)

section \<open>The delete-empty flag of the two appliers\<close>

text \<open>
  Claim C7. A call of the external-VM adapter that returns a receipt has left the state
  database as \<^verbatim>\<open>Finalise(true)\<close> leaves the state reached after the VM's account changes
  and logs when EIP-658 is active at \<^verbatim>\<open>header.Number\<close>, whatever EIP-161 is there; the
  native applier then leaves it as \<^verbatim>\<open>Finalise\<close> with the EIP-161 flag leaves the
  interpreter's state. When EIP-658 is not active both leave it as
  \<^verbatim>\<open>IntermediateRoot\<close> with the EIP-161 flag does.
\<close>

theorem C7_delete_empty_flag:
  "(\<forall>r g err s' gp' ug'.
      applySputnikTransaction P V H D config bc author gp statedb hdr tx usedGas cfg
        = Some ((Some r, g, err), s', gp', ug') \<longrightarrow>
      (\<exists>msg vm1.
         AsMessage H tx (MakeSigner config (hdr_Number hdr)) = Inr msg
       \<and> fire_loop V H D statedb hdr bc
            (NewDynamic V (makeSputnikVMPatch P config hdr) (sputnik_vmtx tx msg) (sputnik_vmheader hdr))
           = Some vm1
       \<and> s' = (if cfg_IsEIP658F config (hdr_Number hdr)
               then Finalise D True
                      (add_logs D (hdr_Number hdr) (Logs V vm1)
                         (apply_account_changes D (AccountChanges V vm1) statedb))
               else snd (IntermediateRoot D (cfg_IsEIP161F config (hdr_Number hdr))
                      (add_logs D (hdr_Number hdr) (Logs V vm1)
                         (apply_account_changes D (AccountChanges V vm1) statedb))))))
   \<and> (\<forall>r g err s' gp' ug'.
      applyTransaction H D config bc author gp statedb hdr tx usedGas cfg
        = ((Some r, g, err), s', gp', ug') \<longrightarrow>
      (\<exists>msg ret failed s1.
         AsMessage H tx (MakeSigner config (hdr_Number hdr)) = Inr msg
       \<and> ApplyMessage H (NewEVM (NewEVMContext msg hdr author) config cfg) msg gp statedb
           = ((ret, g, failed, None), s1, gp')
       \<and> s' = (if cfg_IsEIP658F config (hdr_Number hdr)
               then Finalise D (cfg_IsEIP161F config (hdr_Number hdr)) s1
               else snd (IntermediateRoot D (cfg_IsEIP161F config (hdr_Number hdr)) s1))))"
proof (intro conjI allI impI)
  fix r g err s' gp' ug'
  assume "applySputnikTransaction P V H D config bc author gp statedb hdr tx usedGas cfg
        = Some ((Some r, g, err), s', gp', ug')"
  from applySputnikTransaction_receiptD[OF this]
  show "\<exists>msg vm1.
         AsMessage H tx (MakeSigner config (hdr_Number hdr)) = Inr msg
       \<and> fire_loop V H D statedb hdr bc
            (NewDynamic V (makeSputnikVMPatch P config hdr) (sputnik_vmtx tx msg) (sputnik_vmheader hdr))
           = Some vm1
       \<and> s' = (if cfg_IsEIP658F config (hdr_Number hdr)
               then Finalise D True
                      (add_logs D (hdr_Number hdr) (Logs V vm1)
                         (apply_account_changes D (AccountChanges V vm1) statedb))
               else snd (IntermediateRoot D (cfg_IsEIP161F config (hdr_Number hdr))
                      (add_logs D (hdr_Number hdr) (Logs V vm1)
                         (apply_account_changes D (AccountChanges V vm1) statedb))))"
    by (elim exE conjE) (rule exI, rule exI, simp split: if_splits)
next
  fix r g err s' gp' ug'
  assume "applyTransaction H D config bc author gp statedb hdr tx usedGas cfg
        = ((Some r, g, err), s', gp', ug')"
  from applyTransaction_receiptD[OF this]
  show "\<exists>msg ret failed s1.
         AsMessage H tx (MakeSigner config (hdr_Number hdr)) = Inr msg
       \<and> ApplyMessage H (NewEVM (NewEVMContext msg hdr author) config cfg) msg gp statedb
           = ((ret, g, failed, None), s1, gp')
       \<and> s' = (if cfg_IsEIP658F config (hdr_Number hdr)
               then Finalise D (cfg_IsEIP161F config (hdr_Number hdr)) s1
               else snd (IntermediateRoot D (cfg_IsEIP161F config (hdr_Number hdr)) s1))"
    by (elim exE conjE) (rule exI, rule exI, rule exI, rule exI, simp split: if_splits)
qed

theorem C7_delete_empty_flag_witness:
  "(\<exists>r g s' gp' ug' (vm1 :: machine).
      applySputnikTransaction example_params (scripted_vm (burner_script 21000)) transfer_host world_db
        (example_config 30 20) () None 8000000 (example_world 0) (example_header 25 8000000)
        (example_tx 0 21000 1 (Some 2)) 0 svm_config = Some ((Some r, g, None), s', gp', ug')
    \<and> s' = world_Finalise True
             (add_logs world_db 25 (m_logs vm1)
                (apply_account_changes world_db (m_changes vm1) (example_world 0))))
   \<and> (\<exists>r g s' gp' ug' s1.
      applyTransaction transfer_host world_db (example_config 30 20) () None 8000000 (example_world 0)
        (example_header 25 8000000) (example_tx 0 21000 1 (Some 2)) 0 native_config
        = ((Some r, g, None), s', gp', ug')
    \<and> s' = world_Finalise False s1)"
proof (rule conjI)
  have pc: "precheckSputnikVMTransaction transfer_host world_db (example_config 30 20) (example_world 0)
              (example_header 25 8000000) (example_tx 0 21000 1 (Some 2)) 0 = None"
    by (simp add: example_precheck example_world_def)
  have fl: "fire_loop (scripted_vm (burner_script 21000)) transfer_host world_db (example_world 0)
              (example_header 25 8000000) ()
              (NewDynamic (scripted_vm (burner_script 21000))
                 (makeSputnikVMPatch example_params (example_config 30 20) (example_header 25 8000000))
                 (sputnik_vmtx (example_tx 0 21000 1 (Some 2))
                    \<lparr>msg_From = 1, msg_To = Some 2, msg_Nonce = 0, msg_Value = 0, msg_Gas = 21000,
                     msg_GasPrice = 1, msg_Data = [], msg_CheckNonce = True\<rparr>)
                 (sputnik_vmheader (example_header 25 8000000)))
            = Some \<lparr>m_requests = [],
                 m_commits = [CommittedAccount 1 (uint (w_nonce (example_world 0) 1))
                    (w_balance (example_world 0) 1) (w_code (example_world 0) 1)],
                 m_changes = [AccountChangeFull 1 (uint (0 :: uint64) + 1) 1000000 [] []],
                 m_logs = [], m_used_gas = 21000, m_failed = False\<rparr>"
    by (rule burner_fire_loop) (simp add: example_world_def)
  from applySputnikTransaction_returns[OF pc example_AsMessage fl]
  obtain r s' where ev:
    "applySputnikTransaction example_params (scripted_vm (burner_script 21000)) transfer_host world_db
        (example_config 30 20) () None 8000000 (example_world 0) (example_header 25 8000000)
        (example_tx 0 21000 1 (Some 2)) 0 svm_config
      = Some ((Some r, Uint64 (UsedGas (scripted_vm (burner_script 21000))
                \<lparr>m_requests = [],
                 m_commits = [CommittedAccount 1 (uint (w_nonce (example_world 0) 1))
                    (w_balance (example_world 0) 1) (w_code (example_world 0) 1)],
                 m_changes = [AccountChangeFull 1 (uint (0 :: uint64) + 1) 1000000 [] []],
                 m_logs = [], m_used_gas = 21000, m_failed = False\<rparr>), None), s', 8000000,
              0 + Uint64 (UsedGas (scripted_vm (burner_script 21000))
                \<lparr>m_requests = [],
                 m_commits = [CommittedAccount 1 (uint (w_nonce (example_world 0) 1))
                    (w_balance (example_world 0) 1) (w_code (example_world 0) 1)],
                 m_changes = [AccountChangeFull 1 (uint (0 :: uint64) + 1) 1000000 [] []],
                 m_logs = [], m_used_gas = 21000, m_failed = False\<rparr>))"
    by blast
  have "\<exists>vm1 :: machine. s' = world_Finalise True
             (add_logs world_db 25 (m_logs vm1)
                (apply_account_changes world_db (m_changes vm1) (example_world 0)))"
    using C7_delete_empty_flag[THEN conjunct1, rule_format, OF ev]
    by (elim exE conjE)
       (simp add: example_config_simps example_header_simps world_db_simps scripted_vm_simps, blast)
  with ev show "\<exists>r g s' gp' ug' (vm1 :: machine).
      applySputnikTransaction example_params (scripted_vm (burner_script 21000)) transfer_host world_db
        (example_config 30 20) () None 8000000 (example_world 0) (example_header 25 8000000)
        (example_tx 0 21000 1 (Some 2)) 0 svm_config = Some ((Some r, g, None), s', gp', ug')
    \<and> s' = world_Finalise True
             (add_logs world_db 25 (m_logs vm1)
                (apply_account_changes world_db (m_changes vm1) (example_world 0)))"
    by blast
next
  have "\<exists>s1. ApplyMessage transfer_host
           (NewEVM (NewEVMContext \<lparr>msg_From = 1, msg_To = Some 2, msg_Nonce = 0, msg_Value = 0,
               msg_Gas = 21000, msg_GasPrice = 1, msg_Data = [], msg_CheckNonce = True\<rparr>
               (example_header 25 8000000) None) (example_config 30 20) native_config)
           \<lparr>msg_From = 1, msg_To = Some 2, msg_Nonce = 0, msg_Value = 0,
               msg_Gas = 21000, msg_GasPrice = 1, msg_Data = [], msg_CheckNonce = True\<rparr>
           8000000 (example_world 0) = (([], 21000, False, None), s1, 8000000 - 21000)"
    using transfer_ApplyMessage_runs[of 8000000 "\<lparr>msg_From = 1, msg_To = Some 2, msg_Nonce = 0, msg_Value = 0,
               msg_Gas = 21000, msg_GasPrice = 1, msg_Data = [], msg_CheckNonce = True\<rparr>"]
    by auto
  then obtain s1 where ap: "ApplyMessage transfer_host
           (NewEVM (NewEVMContext \<lparr>msg_From = 1, msg_To = Some 2, msg_Nonce = 0, msg_Value = 0,
               msg_Gas = 21000, msg_GasPrice = 1, msg_Data = [], msg_CheckNonce = True\<rparr>
               (example_header 25 8000000) None) (example_config 30 20) native_config)
           \<lparr>msg_From = 1, msg_To = Some 2, msg_Nonce = 0, msg_Value = 0,
               msg_Gas = 21000, msg_GasPrice = 1, msg_Data = [], msg_CheckNonce = True\<rparr>
           8000000 (example_world 0) = (([], 21000, False, None), s1, 8000000 - 21000)"
    by blast
  from applyTransaction_returns[OF example_AsMessage ap]
  obtain r s' where ev:
    "applyTransaction transfer_host world_db (example_config 30 20) () None 8000000 (example_world 0)
        (example_header 25 8000000) (example_tx 0 21000 1 (Some 2)) 0 native_config
        = ((Some r, 21000, None), s', 8000000 - 21000, 0 + 21000)"
    by blast
  have "\<exists>s1'. s' = world_Finalise False s1'"
    using C7_delete_empty_flag[THEN conjunct2, rule_format, OF ev]
    by (elim exE conjE)
       (simp add: example_config_simps example_header_simps world_db_simps, blast)
  with ev show "\<exists>r g s' gp' ug' s1.
      applyTransaction transfer_host world_db (example_config 30 20) () None 8000000 (example_world 0)
        (example_header 25 8000000) (example_tx 0 21000 1 (Some 2)) 0 native_config
        = ((Some r, g, None), s', gp', ug')
    \<and> s' = world_Finalise False s1"
    by blast
qed

section \<open>The post-state root of a receipt\<close>

text \<open>
  Claim C2. For a transaction applied by the native applier or by the external-VM adapter:
  when EIP-658 is active at \<^verbatim>\<open>header.Number\<close> the receipt's post-state root is empty and
  the state database has been finalised with \<^verbatim>\<open>Finalise\<close>; when it is not, the
  post-state root is the 32 bytes of the root \<^verbatim>\<open>IntermediateRoot\<close> returned. In both cases
  the receipt's logs are read from the state database after that call.
\<close>

theorem C2_post_state_root:
  "(\<forall>r g err s' gp' ug'.
      applySputnikTransaction P V H D config bc author gp statedb hdr tx usedGas cfg
        = Some ((Some r, g, err), s', gp', ug') \<longrightarrow>
      (\<exists>msg vm1.
         AsMessage H tx (MakeSigner config (hdr_Number hdr)) = Inr msg
       \<and> fire_loop V H D statedb hdr bc
            (NewDynamic V (makeSputnikVMPatch P config hdr) (sputnik_vmtx tx msg) (sputnik_vmheader hdr))
           = Some vm1
       \<and> (if cfg_IsEIP658F config (hdr_Number hdr)
           then rcpt_PostState r = []
              \<and> s' = Finalise D True
                        (add_logs D (hdr_Number hdr) (Logs V vm1)
                           (apply_account_changes D (AccountChanges V vm1) statedb))
           else rcpt_PostState r =
                  Hash_Bytes (fst (IntermediateRoot D (cfg_IsEIP161F config (hdr_Number hdr))
                        (add_logs D (hdr_Number hdr) (Logs V vm1)
                           (apply_account_changes D (AccountChanges V vm1) statedb))))
              \<and> length (rcpt_PostState r) = 32)
       \<and> rcpt_Logs r = GetLogs D s' (tx_Hash tx)))
   \<and> (\<forall>r g err s' gp' ug'.
      applyTransaction H D config bc author gp statedb hdr tx usedGas cfg
        = ((Some r, g, err), s', gp', ug') \<longrightarrow>
      (\<exists>msg ret failed s1.
         AsMessage H tx (MakeSigner config (hdr_Number hdr)) = Inr msg
       \<and> ApplyMessage H (NewEVM (NewEVMContext msg hdr author) config cfg) msg gp statedb
           = ((ret, g, failed, None), s1, gp')
       \<and> (if cfg_IsEIP658F config (hdr_Number hdr)
           then rcpt_PostState r = []
              \<and> s' = Finalise D (cfg_IsEIP161F config (hdr_Number hdr)) s1
           else rcpt_PostState r =
                  Hash_Bytes (fst (IntermediateRoot D (cfg_IsEIP161F config (hdr_Number hdr)) s1))
              \<and> length (rcpt_PostState r) = 32)
       \<and> rcpt_Logs r = GetLogs D s' (tx_Hash tx)))"
proof (intro conjI allI impI)
  fix r g err s' gp' ug'
  assume "applySputnikTransaction P V H D config bc author gp statedb hdr tx usedGas cfg
        = Some ((Some r, g, err), s', gp', ug')"
  from applySputnikTransaction_receiptD[OF this]
  obtain msg vm1 where
    "AsMessage H tx (MakeSigner config (hdr_Number hdr)) = Inr msg"
    "fire_loop V H D statedb hdr bc
            (NewDynamic V (makeSputnikVMPatch P config hdr) (sputnik_vmtx tx msg) (sputnik_vmheader hdr))
           = Some vm1"
    "if cfg_IsEIP658F config (hdr_Number hdr)
             then s' = Finalise D True
                         (add_logs D (hdr_Number hdr) (Logs V vm1)
                            (apply_account_changes D (AccountChanges V vm1) statedb))
                \<and> rcpt_PostState r = []
             else s' = snd (IntermediateRoot D (cfg_IsEIP161F config (hdr_Number hdr))
                         (add_logs D (hdr_Number hdr) (Logs V vm1)
                            (apply_account_changes D (AccountChanges V vm1) statedb)))
                \<and> rcpt_PostState r = Hash_Bytes (fst (IntermediateRoot D (cfg_IsEIP161F config (hdr_Number hdr))
                         (add_logs D (hdr_Number hdr) (Logs V vm1)
                            (apply_account_changes D (AccountChanges V vm1) statedb))))"
    "rcpt_Logs r = GetLogs D s' (tx_Hash tx)"
    by blast
  then show "\<exists>msg vm1.
         AsMessage H tx (MakeSigner config (hdr_Number hdr)) = Inr msg
       \<and> fire_loop V H D statedb hdr bc
            (NewDynamic V (makeSputnikVMPatch P config hdr) (sputnik_vmtx tx msg) (sputnik_vmheader hdr))
           = Some vm1
       \<and> (if cfg_IsEIP658F config (hdr_Number hdr)
           then rcpt_PostState r = []
              \<and> s' = Finalise D True
                        (add_logs D (hdr_Number hdr) (Logs V vm1)
                           (apply_account_changes D (AccountChanges V vm1) statedb))
           else rcpt_PostState r =
                  Hash_Bytes (fst (IntermediateRoot D (cfg_IsEIP161F config (hdr_Number hdr))
                        (add_logs D (hdr_Number hdr) (Logs V vm1)
                           (apply_account_changes D (AccountChanges V vm1) statedb))))
              \<and> length (rcpt_PostState r) = 32)
       \<and> rcpt_Logs r = GetLogs D s' (tx_Hash tx)"
    by (intro exI[of _ msg] exI[of _ vm1]) (simp add: Hash_Bytes_length split: if_splits)
next
  fix r g err s' gp' ug'
  assume "applyTransaction H D config bc author gp statedb hdr tx usedGas cfg
        = ((Some r, g, err), s', gp', ug')"
  from applyTransaction_receiptD[OF this]
  obtain msg ret failed s1 where
    "AsMessage H tx (MakeSigner config (hdr_Number hdr)) = Inr msg"
    "ApplyMessage H (NewEVM (NewEVMContext msg hdr author) config cfg) msg gp statedb
           = ((ret, g, failed, None), s1, gp')"
    "if cfg_IsEIP658F config (hdr_Number hdr)
             then s' = Finalise D (cfg_IsEIP161F config (hdr_Number hdr)) s1 \<and> rcpt_PostState r = []
             else s' = snd (IntermediateRoot D (cfg_IsEIP161F config (hdr_Number hdr)) s1)
                \<and> rcpt_PostState r =
                    Hash_Bytes (fst (IntermediateRoot D (cfg_IsEIP161F config (hdr_Number hdr)) s1))"
    "rcpt_Logs r = GetLogs D s' (tx_Hash tx)"
    by blast
  then show "\<exists>msg ret failed s1.
         AsMessage H tx (MakeSigner config (hdr_Number hdr)) = Inr msg
       \<and> ApplyMessage H (NewEVM (NewEVMContext msg hdr author) config cfg) msg gp statedb
           = ((ret, g, failed, None), s1, gp')
       \<and> (if cfg_IsEIP658F config (hdr_Number hdr)
           then rcpt_PostState r = []
              \<and> s' = Finalise D (cfg_IsEIP161F config (hdr_Number hdr)) s1
           else rcpt_PostState r =
                  Hash_Bytes (fst (IntermediateRoot D (cfg_IsEIP161F config (hdr_Number hdr)) s1))
              \<and> length (rcpt_PostState r) = 32)
       \<and> rcpt_Logs r = GetLogs D s' (tx_Hash tx)"
    by (intro exI[of _ msg] exI[of _ ret] exI[of _ failed] exI[of _ s1])
       (simp add: Hash_Bytes_length split: if_splits)
qed

theorem C2_post_state_root_witness:
  "(\<exists>r g s' gp' ug'.
      applySputnikTransaction example_params (scripted_vm (burner_script 21000)) transfer_host world_db
        (example_config 10 20) () None 8000000 (example_world 0) (example_header 25 8000000)
        (example_tx 0 21000 1 (Some 2)) 0 svm_config = Some ((Some r, g, None), s', gp', ug')
    \<and> rcpt_PostState r = [])
   \<and> (\<exists>r g s' gp' ug'.
      applyTransaction transfer_host world_db (example_config 10 20) () None 8000000 (example_world 0)
        (example_header 5 8000000) (example_tx 0 21000 1 (Some 2)) 0 native_config
        = ((Some r, g, None), s', gp', ug')
    \<and> length (rcpt_PostState r) = 32)"
proof (rule conjI)
  from burner_step[of "example_world 0" 0 21000 1 8000000 0 21000 10 20 8000000 25 "Some 2"]
  obtain r s' where ev:
    "applySputnikTransaction example_params (scripted_vm (burner_script 21000)) transfer_host world_db
        (example_config 10 20) () None 8000000 (example_world 0) (example_header 25 8000000)
        (example_tx 0 21000 1 (Some 2)) 0 svm_config
      = Some ((Some r, Uint64 21000, None), s', 8000000, 0 + Uint64 21000)"
    by (auto simp: example_world_def)
  have "rcpt_PostState r = []"
    using C2_post_state_root[THEN conjunct1, rule_format, OF ev]
    by (auto simp: example_config_simps example_header_simps)
  with ev show "\<exists>r g s' gp' ug'.
      applySputnikTransaction example_params (scripted_vm (burner_script 21000)) transfer_host world_db
        (example_config 10 20) () None 8000000 (example_world 0) (example_header 25 8000000)
        (example_tx 0 21000 1 (Some 2)) 0 svm_config = Some ((Some r, g, None), s', gp', ug')
    \<and> rcpt_PostState r = []"
    by blast
next
  from transfer_step[of 8000000 21000 10 20 "example_world 0" 5 8000000 0 1 "Some 2" 0]
  obtain r s' where ev:
    "applyTransaction transfer_host world_db (example_config 10 20) () None 8000000 (example_world 0)
        (example_header 5 8000000) (example_tx 0 21000 1 (Some 2)) 0 native_config
        = ((Some r, 21000, None), s', 8000000 - 21000, 0 + 21000)"
    by auto
  have "length (rcpt_PostState r) = 32"
    using C2_post_state_root[THEN conjunct2, rule_format, OF ev]
    by (auto simp: example_config_simps example_header_simps)
  with ev show "\<exists>r g s' gp' ug'.
      applyTransaction transfer_host world_db (example_config 10 20) () None 8000000 (example_world 0)
        (example_header 5 8000000) (example_tx 0 21000 1 (Some 2)) 0 native_config
        = ((Some r, g, None), s', gp', ug')
    \<and> length (rcpt_PostState r) = 32"
    by blast
qed

section \<open>The contract address of a creation\<close>

text \<open>
  Claim C4. When the transaction has no recipient, the receipt of either applier carries
  as contract address the creation address of the sender the signer recovered and of the
  transaction's own nonce field: the 20 low bytes of the Keccak-256 hash of the RLP
  encoding of the pair. In the witness the sender's nonce in the state database is 6 after
  the call and the address is the one of nonce 5.
\<close>

theorem C4_contract_address:
  "(\<forall>r g err s' gp' ug'.
      applySputnikTransaction P V H D config bc author gp statedb hdr tx usedGas cfg
        = Some ((Some r, g, err), s', gp', ug') \<longrightarrow> tx_To tx = None \<longrightarrow>
      (\<exists>sender. Sender H (MakeSigner config (hdr_Number hdr)) tx = Inr sender
         \<and> rcpt_ContractAddress r = CreateAddress H sender (tx_Nonce tx)
         \<and> CreateAddress H sender (tx_Nonce tx)
             = ucast (Keccak256 H (rlp_sender_nonce H sender (tx_Nonce tx)))))
   \<and> (\<forall>r g err s' gp' ug'.
      applyTransaction H D config bc author gp statedb hdr tx usedGas cfg
        = ((Some r, g, err), s', gp', ug') \<longrightarrow> tx_To tx = None \<longrightarrow>
      (\<exists>sender. Sender H (MakeSigner config (hdr_Number hdr)) tx = Inr sender
         \<and> rcpt_ContractAddress r = CreateAddress H sender (tx_Nonce tx)
         \<and> CreateAddress H sender (tx_Nonce tx)
             = ucast (Keccak256 H (rlp_sender_nonce H sender (tx_Nonce tx)))))"
proof (intro conjI allI impI)
  fix r g err s' gp' ug'
  assume ev: "applySputnikTransaction P V H D config bc author gp statedb hdr tx usedGas cfg
        = Some ((Some r, g, err), s', gp', ug')" and cr: "tx_To tx = None"
  from applySputnikTransaction_receiptD[OF ev]
  obtain msg where am: "AsMessage H tx (MakeSigner config (hdr_Number hdr)) = Inr msg"
    and ca: "rcpt_ContractAddress r =
              (if msg_To msg = None then CreateAddress H (msg_From msg) (tx_Nonce tx) else 0)"
    by blast
  from AsMessage_InrD[OF am] cr ca
  show "\<exists>sender. Sender H (MakeSigner config (hdr_Number hdr)) tx = Inr sender
         \<and> rcpt_ContractAddress r = CreateAddress H sender (tx_Nonce tx)
         \<and> CreateAddress H sender (tx_Nonce tx)
             = ucast (Keccak256 H (rlp_sender_nonce H sender (tx_Nonce tx)))"
    by (intro exI[of _ "msg_From msg"]) (simp add: CreateAddress_def)
next
  fix r g err s' gp' ug'
  assume ev: "applyTransaction H D config bc author gp statedb hdr tx usedGas cfg
        = ((Some r, g, err), s', gp', ug')" and cr: "tx_To tx = None"
  from applyTransaction_receiptD[OF ev]
  obtain msg where am: "AsMessage H tx (MakeSigner config (hdr_Number hdr)) = Inr msg"
    and ca: "rcpt_ContractAddress r =
              (if msg_To msg = None then CreateAddress H (msg_From msg) (tx_Nonce tx) else 0)"
    by blast
  from AsMessage_InrD[OF am] cr ca
  show "\<exists>sender. Sender H (MakeSigner config (hdr_Number hdr)) tx = Inr sender
         \<and> rcpt_ContractAddress r = CreateAddress H sender (tx_Nonce tx)
         \<and> CreateAddress H sender (tx_Nonce tx)
             = ucast (Keccak256 H (rlp_sender_nonce H sender (tx_Nonce tx)))"
    by (intro exI[of _ "msg_From msg"]) (simp add: CreateAddress_def)
qed

theorem C4_contract_address_witness:
  "(\<exists>r g s' gp' ug'.
      applySputnikTransaction example_params (scripted_vm (burner_script 60000)) transfer_host world_db
        (example_config 10 20) () None 8000000 (example_world 5) (example_header 25 8000000)
        (example_tx 5 100000 1 None) 0 svm_config = Some ((Some r, g, None), s', gp', ug')
    \<and> rcpt_ContractAddress r = CreateAddress transfer_host 1 5 \<and> w_nonce s' 1 = 6)
   \<and> (\<exists>r g s' gp' ug'.
      applyTransaction transfer_host world_db (example_config 10 20) () None 8000000 (example_world 5)
        (example_header 25 8000000) (example_tx 5 100000 1 None) 0 native_config
        = ((Some r, g, None), s', gp', ug')
    \<and> rcpt_ContractAddress r = CreateAddress transfer_host 1 5 \<and> w_nonce s' 1 = 6)"
proof (rule conjI)
  have sd: "\<And>sg. Sender transfer_host sg (example_tx 5 100000 1 None) = Inr 1"
    by (simp add: transfer_host_def example_tx_def)
  from burner_step[of "example_world 5" 5 100000 1 8000000 0 60000 10 20 8000000 25 None]
  obtain r s' where ev:
    "applySputnikTransaction example_params (scripted_vm (burner_script 60000)) transfer_host world_db
        (example_config 10 20) () None 8000000 (example_world 5) (example_header 25 8000000)
        (example_tx 5 100000 1 None) 0 svm_config
      = Some ((Some r, Uint64 60000, None), s', 8000000, 0 + Uint64 60000)"
    and n: "w_nonce s' 1 = 5 + 1"
    by (auto simp: example_world_def)
  have "rcpt_ContractAddress r = CreateAddress transfer_host 1 5"
    using C4_contract_address[THEN conjunct1, rule_format, OF ev]
    by (auto simp: example_tx_simps sd)
  with ev n show "\<exists>r g s' gp' ug'.
      applySputnikTransaction example_params (scripted_vm (burner_script 60000)) transfer_host world_db
        (example_config 10 20) () None 8000000 (example_world 5) (example_header 25 8000000)
        (example_tx 5 100000 1 None) 0 svm_config = Some ((Some r, g, None), s', gp', ug')
    \<and> rcpt_ContractAddress r = CreateAddress transfer_host 1 5 \<and> w_nonce s' 1 = 6"
    by auto
next
  have sd: "\<And>sg. Sender transfer_host sg (example_tx 5 100000 1 None) = Inr 1"
    by (simp add: transfer_host_def example_tx_def)
  from transfer_step[of 8000000 100000 10 20 "example_world 5" 25 8000000 5 1 None 0]
  obtain r s' where ev:
    "applyTransaction transfer_host world_db (example_config 10 20) () None 8000000 (example_world 5)
        (example_header 25 8000000) (example_tx 5 100000 1 None) 0 native_config
        = ((Some r, 21000, None), s', 8000000 - 21000, 0 + 21000)"
    and n: "w_nonce s' 1 = w_nonce (example_world 5) 1 + 1"
    by auto
  have "rcpt_ContractAddress r = CreateAddress transfer_host 1 5"
    using C4_contract_address[THEN conjunct2, rule_format, OF ev]
    by (auto simp: example_tx_simps sd)
  with ev n show "\<exists>r g s' gp' ug'.
      applyTransaction transfer_host world_db (example_config 10 20) () None 8000000 (example_world 5)
        (example_header 25 8000000) (example_tx 5 100000 1 None) 0 native_config
        = ((Some r, g, None), s', gp', ug')
    \<and> rcpt_ContractAddress r = CreateAddress transfer_host 1 5 \<and> w_nonce s' 1 = 6"
    by (auto simp: example_world_def)
qed

section \<open>The request loop of the adapter\<close>

text \<open>
  Claim C9. In the adapter's request loop a request for an account is answered with the
  account's nonce, balance and code from the state database when \<^verbatim>\<open>statedb.Exist\<close> holds
  of the address, a request for an account's code with the code alone, a request for a
  storage slot with the stored word read as a number, the slot's key being the request's
  key as a 32-byte word, and each of the three with \<^verbatim>\<open>CommitNonexist\<close> when the account
  does not exist; a request for a block hash is answered with the hash the host's
  \<^verbatim>\<open>GetHashFn\<close> closure gives for the number's low 64 bits. The loop returns at a request
  for nothing, goes on after every other request, and whenever it has returned the VM
  state it returns is the one left by a request for nothing.
\<close>

theorem C9_request_loop:
  "(\<forall>vm1. Fire V vm = (RequireNone, vm1) \<longrightarrow> fire_loop V H D statedb hdr bc vm = Some vm1)
   \<and> (\<forall>addr vm1. Fire V vm = (RequireAccount addr, vm1) \<longrightarrow>
        fire_loop V H D statedb hdr bc vm =
          fire_loop V H D statedb hdr bc
            (if Exist D statedb (asEthAddress addr)
             then CommitAccount V addr (toBigInt (GetNonce D statedb (asEthAddress addr)))
                    (GetBalance D statedb (asEthAddress addr)) (GetCode D statedb (asEthAddress addr)) vm1
             else CommitNonexist V addr vm1))
   \<and> (\<forall>addr vm1. Fire V vm = (RequireAccountCode addr, vm1) \<longrightarrow>
        fire_loop V H D statedb hdr bc vm =
          fire_loop V H D statedb hdr bc
            (if Exist D statedb (asEthAddress addr)
             then CommitAccountCode V addr (GetCode D statedb (asEthAddress addr)) vm1
             else CommitNonexist V addr vm1))
   \<and> (\<forall>addr skey vm1. Fire V vm = (RequireAccountStorage addr skey, vm1) \<longrightarrow>
        fire_loop V H D statedb hdr bc vm =
          fire_loop V H D statedb hdr bc
            (if Exist D statedb (asEthAddress addr)
             then CommitAccountStorage V addr skey
                    (Hash_Big (GetState D statedb (asEthAddress addr) (BigToHash skey))) vm1
             else CommitNonexist V addr vm1))
   \<and> (\<forall>number vm1. Fire V vm = (RequireBlockhash number, vm1) \<longrightarrow>
        fire_loop V H D statedb hdr bc vm =
          fire_loop V H D statedb hdr bc
            (CommitBlockhash V number (asSputnikHash (GetHashFn H hdr bc (Uint64 number))) vm1))
   \<and> (\<forall>vm'. fire_loop V H D statedb hdr bc vm = Some vm' \<longrightarrow>
        (\<exists>vm0. Fire V vm0 = (RequireNone, vm')))
   \<and> asEthAddress a = a \<and> asSputnikHash h = h
   \<and> uint (BigToHash k) = \<bar>k\<bar> mod 2 ^ 256 \<and> Hash_Big w = uint w"
  by (intro conjI allI impI)
     (simp_all add: fire_loop_RequireNone fire_loop_RequireAccount fire_loop_RequireAccountCode
        fire_loop_RequireAccountStorage fire_loop_RequireBlockhash
        fire_loop_exit_only_on_RequireNone asEthAddress_def asSputnikHash_def BigToHash_def
        Hash_Big_def uint_word_of_int take_bit_eq_mod)



theorem C9_request_loop_witness:
  "fire_loop (scripted_vm (burner_script 21000)) transfer_host world_db (example_world 0)
     (example_header 25 8000000) ()
     (asking [RequireAccount 1, RequireAccountCode 7, RequireAccountStorage 1 3, RequireBlockhash 24] [])
   = Some (asking []
       [CommittedAccount 1 0 1000000 [], CommittedNonexist 7, CommittedAccountStorage 1 3 0,
        CommittedBlockhash 24 4120])
   \<and> (\<exists>vm0. Fire (scripted_vm (burner_script 21000)) vm0
        = (RequireNone, asking []
            [CommittedAccount 1 0 1000000 [], CommittedNonexist 7, CommittedAccountStorage 1 3 0,
             CommittedBlockhash 24 4120]))"
proof -
  let ?V = "scripted_vm (burner_script 21000)"
  let ?loop = "fire_loop ?V transfer_host world_db (example_world 0) (example_header 25 8000000) ()"
  note C9 = C9_request_loop[where V = ?V and H = transfer_host and D = world_db
      and statedb = "example_world 0" and hdr = "example_header 25 8000000" and bc = "()"]
  have F: "\<And>r rs cs. Fire ?V (asking (r # rs) cs) = (r, asking rs cs)"
    by (simp add: scripted_vm_def asking_def)
  have F0: "\<And>cs. Fire ?V (asking [] cs) = (RequireNone, asking [] cs)"
    by (simp add: scripted_vm_def asking_def)
  have 1: "?loop (asking [RequireAccount 1, RequireAccountCode 7, RequireAccountStorage 1 3, RequireBlockhash 24] [])
         = ?loop (asking [RequireAccountCode 7, RequireAccountStorage 1 3, RequireBlockhash 24]
                    [CommittedAccount 1 0 1000000 []])"
    using C9[THEN conjunct2, THEN conjunct1, rule_format, OF F]
    by (simp add: world_db_simps example_world_def asEthAddress_def toBigInt_def scripted_vm_def asking_def)
  have 2: "?loop (asking [RequireAccountCode 7, RequireAccountStorage 1 3, RequireBlockhash 24]
                    [CommittedAccount 1 0 1000000 []])
         = ?loop (asking [RequireAccountStorage 1 3, RequireBlockhash 24]
                    [CommittedAccount 1 0 1000000 [], CommittedNonexist 7])"
    using C9[THEN conjunct2, THEN conjunct2, THEN conjunct1, rule_format, OF F]
    by (simp add: world_db_simps example_world_def asEthAddress_def scripted_vm_def asking_def)
  have 3: "?loop (asking [RequireAccountStorage 1 3, RequireBlockhash 24]
                    [CommittedAccount 1 0 1000000 [], CommittedNonexist 7])
         = ?loop (asking [RequireBlockhash 24]
                    [CommittedAccount 1 0 1000000 [], CommittedNonexist 7, CommittedAccountStorage 1 3 0])"
    using C9[THEN conjunct2, THEN conjunct2, THEN conjunct2, THEN conjunct1, rule_format, OF F]
    by (simp add: world_db_simps example_world_def asEthAddress_def Hash_Big_def scripted_vm_def asking_def)
  have 4: "?loop (asking [RequireBlockhash 24]
                    [CommittedAccount 1 0 1000000 [], CommittedNonexist 7, CommittedAccountStorage 1 3 0])
         = ?loop (asking []
                    [CommittedAccount 1 0 1000000 [], CommittedNonexist 7, CommittedAccountStorage 1 3 0,
                     CommittedBlockhash 24 4120])"
    using C9[THEN conjunct2, THEN conjunct2, THEN conjunct2, THEN conjunct2, THEN conjunct1,
             rule_format, OF F]
    by (simp add: transfer_host_def asSputnikHash_def Uint64_def scripted_vm_def asking_def)
  have 5: "?loop (asking []
                    [CommittedAccount 1 0 1000000 [], CommittedNonexist 7, CommittedAccountStorage 1 3 0,
                     CommittedBlockhash 24 4120])
         = Some (asking []
                    [CommittedAccount 1 0 1000000 [], CommittedNonexist 7, CommittedAccountStorage 1 3 0,
                     CommittedBlockhash 24 4120])"
    using C9[THEN conjunct1, rule_format, OF F0] .
  have res: "?loop (asking [RequireAccount 1, RequireAccountCode 7, RequireAccountStorage 1 3, RequireBlockhash 24] [])
     = Some (asking []
                    [CommittedAccount 1 0 1000000 [], CommittedNonexist 7, CommittedAccountStorage 1 3 0,
                     CommittedBlockhash 24 4120])"
    by (simp only: 1 2 3 4 5)
  from C9[THEN conjunct2, THEN conjunct2, THEN conjunct2, THEN conjunct2, THEN conjunct2,
          THEN conjunct1, rule_format, OF res] res
  show ?thesis by blast
qed

section \<open>The gas pool on the adapter's path\<close>

text \<open>
  Claim C10. The external-VM adapter neither reads nor changes the gas pool it is given:
  whenever it returns, the pool is the one passed in, and but for the pool its result is the
  same for any two pools. On this path the error \<^verbatim>\<open>ErrGasLimitReached\<close> is returned
  exactly when the nonce and balance checks pass and the 64-bit sum of the counter
  \<^verbatim>\<open>*usedGas\<close> and the transaction's gas limit is above \<^verbatim>\<open>header.GasLimit\<close>.
\<close>

theorem C10_gas_pool_untouched:
  "(\<forall>res s' gp' ug'.
      applySputnikTransaction P V H D config bc author gp statedb hdr tx usedGas cfg
        = Some (res, s', gp', ug') \<longrightarrow> gp' = gp)
   \<and> map_option (\<lambda>(res, s', gp', ug'). (res, s', ug'))
        (applySputnikTransaction P V H D config bc author gp statedb hdr tx usedGas cfg)
     = map_option (\<lambda>(res, s', gp', ug'). (res, s', ug'))
        (applySputnikTransaction P V H D config bc author gp2 statedb hdr tx usedGas cfg)
   \<and> (\<forall>msg. AsMessage H tx (MakeSigner config (hdr_Number hdr)) = Inr msg \<longrightarrow>
        (applySputnikTransaction P V H D config bc author gp statedb hdr tx usedGas cfg
           = Some ((None, 0, Some ErrGasLimitReached), statedb, gp, usedGas))
        = (GetNonce D statedb (msg_From msg) = tx_Nonce tx
           \<and> \<not> GetBalance D statedb (msg_From msg) < uint (tx_Gas tx) * tx_GasPrice tx
           \<and> hdr_GasLimit hdr < usedGas + tx_Gas tx))"
proof (intro conjI allI impI)
  fix res s' gp' ug'
  assume "applySputnikTransaction P V H D config bc author gp statedb hdr tx usedGas cfg
        = Some (res, s', gp', ug')"
  then show "gp' = gp"
    unfolding applySputnikTransaction_def
    by (auto simp: Let_def split: option.splits sum.splits prod.splits if_splits)
next
  show "map_option (\<lambda>(res, s', gp', ug'). (res, s', ug'))
        (applySputnikTransaction P V H D config bc author gp statedb hdr tx usedGas cfg)
     = map_option (\<lambda>(res, s', gp', ug'). (res, s', ug'))
        (applySputnikTransaction P V H D config bc author gp2 statedb hdr tx usedGas cfg)"
    unfolding applySputnikTransaction_def
    by (auto simp: Let_def split: option.splits sum.splits prod.splits if_splits)
next
  fix msg
  assume am: "AsMessage H tx (MakeSigner config (hdr_Number hdr)) = Inr msg"
  show "(applySputnikTransaction P V H D config bc author gp statedb hdr tx usedGas cfg
           = Some ((None, 0, Some ErrGasLimitReached), statedb, gp, usedGas))
        = (GetNonce D statedb (msg_From msg) = tx_Nonce tx
           \<and> \<not> GetBalance D statedb (msg_From msg) < uint (tx_Gas tx) * tx_GasPrice tx
           \<and> hdr_GasLimit hdr < usedGas + tx_Gas tx)"
  proof (cases "precheckSputnikVMTransaction H D config statedb hdr tx usedGas")
    case None
    then have "applySputnikTransaction P V H D config bc author gp statedb hdr tx usedGas cfg
           \<noteq> Some ((None, 0, Some ErrGasLimitReached), statedb, gp, usedGas)"
      using am unfolding applySputnikTransaction_def
      by (auto simp: Let_def split: option.splits prod.splits if_splits)
    with None show ?thesis
      by (auto simp: precheck_Inr[OF am] split: if_splits)
  next
    case (Some e)
    have eq: "applySputnikTransaction P V H D config bc author gp statedb hdr tx usedGas cfg
           = Some ((None, 0, Some e), statedb, gp, usedGas)"
      by (rule applySputnikTransaction_rejects[OF Some])
    have "(e = ErrGasLimitReached)
        = (GetNonce D statedb (msg_From msg) = tx_Nonce tx
           \<and> \<not> GetBalance D statedb (msg_From msg) < uint (tx_Gas tx) * tx_GasPrice tx
           \<and> hdr_GasLimit hdr < usedGas + tx_Gas tx)"
      using Some by (auto simp: precheck_Inr[OF am] split: if_splits)
    then show ?thesis unfolding eq by simp
  qed
qed


theorem C10_gas_pool_untouched_witness:
  "(\<exists>res s' ug'.
      applySputnikTransaction example_params (scripted_vm (burner_script 21000)) transfer_host world_db
        (example_config 10 20) () None 8000000 (example_world 0) (example_header 25 8000000)
        (example_tx 0 21000 1 (Some 2)) 0 svm_config = Some (res, s', 8000000, ug'))
   \<and> map_option (\<lambda>(res, s', gp', ug'). (res, s', ug'))
        (applySputnikTransaction example_params (scripted_vm (burner_script 21000)) transfer_host world_db
           (example_config 10 20) () None 8000000 (example_world 0) (example_header 25 8000000)
           (example_tx 0 21000 1 (Some 2)) 0 svm_config)
     = map_option (\<lambda>(res, s', gp', ug'). (res, s', ug'))
        (applySputnikTransaction example_params (scripted_vm (burner_script 21000)) transfer_host world_db
           (example_config 10 20) () None 0 (example_world 0) (example_header 25 8000000)
           (example_tx 0 21000 1 (Some 2)) 0 svm_config)
   \<and> applySputnikTransaction example_params (scripted_vm (burner_script 21000)) transfer_host world_db
        (example_config 10 20) () None 8000000 (example_world 0) (example_header 25 100)
        (example_tx 0 21000 1 (Some 2)) 0 svm_config
       = Some ((None, 0, Some ErrGasLimitReached), example_world 0, 8000000, 0)"
proof (intro conjI)
  from burner_step[of "example_world 0" 0 21000 1 8000000 0 21000 10 20 8000000 25 "Some 2"]
  have "\<exists>res s' gp' ug'.
      applySputnikTransaction example_params (scripted_vm (burner_script 21000)) transfer_host world_db
        (example_config 10 20) () None 8000000 (example_world 0) (example_header 25 8000000)
        (example_tx 0 21000 1 (Some 2)) 0 svm_config = Some (res, s', gp', ug')"
    by (auto simp: example_world_def)
  then obtain res s' gp' ug' where ev:
    "applySputnikTransaction example_params (scripted_vm (burner_script 21000)) transfer_host world_db
        (example_config 10 20) () None 8000000 (example_world 0) (example_header 25 8000000)
        (example_tx 0 21000 1 (Some 2)) 0 svm_config = Some (res, s', gp', ug')"
    by blast
  from C10_gas_pool_untouched[THEN conjunct1, rule_format, OF ev] have "gp' = 8000000" .
  with ev show "\<exists>res s' ug'.
      applySputnikTransaction example_params (scripted_vm (burner_script 21000)) transfer_host world_db
        (example_config 10 20) () None 8000000 (example_world 0) (example_header 25 8000000)
        (example_tx 0 21000 1 (Some 2)) 0 svm_config = Some (res, s', 8000000, ug')"
    by blast
next
  show "map_option (\<lambda>(res, s', gp', ug'). (res, s', ug'))
        (applySputnikTransaction example_params (scripted_vm (burner_script 21000)) transfer_host world_db
           (example_config 10 20) () None 8000000 (example_world 0) (example_header 25 8000000)
           (example_tx 0 21000 1 (Some 2)) 0 svm_config)
     = map_option (\<lambda>(res, s', gp', ug'). (res, s', ug'))
        (applySputnikTransaction example_params (scripted_vm (burner_script 21000)) transfer_host world_db
           (example_config 10 20) () None 0 (example_world 0) (example_header 25 8000000)
           (example_tx 0 21000 1 (Some 2)) 0 svm_config)"
    by (rule C10_gas_pool_untouched[THEN conjunct2, THEN conjunct1])
next
  show "applySputnikTransaction example_params (scripted_vm (burner_script 21000)) transfer_host world_db
        (example_config 10 20) () None 8000000 (example_world 0) (example_header 25 100)
        (example_tx 0 21000 1 (Some 2)) 0 svm_config
       = Some ((None, 0, Some ErrGasLimitReached), example_world 0, 8000000, 0)"
    using C10_gas_pool_untouched[where P = example_params and V = "scripted_vm (burner_script 21000)"
        and H = transfer_host and D = world_db and config = "example_config 10 20" and bc = "()"
        and author = None and gp = 8000000 and statedb = "example_world 0"
        and hdr = "example_header 25 100" and tx = "example_tx 0 21000 1 (Some 2)" and usedGas = 0
        and cfg = svm_config, THEN conjunct2, THEN conjunct2, rule_format, OF example_AsMessage]
    by (simp add: world_db_simps example_world_def example_tx_simps example_header_simps)
qed

end
